theory Spec2Isabelle
  imports Complex_Main
begin

section \<open>Python values, documents and exceptions\<close>

text \<open>
  The backend (\<^verbatim>\<open>backend/server.py\<close>) moves Python dictionaries between its request
  handlers, its two normalising helpers and the document store. A dictionary is a finite
  map from field names to values; Python compares dictionaries without regard to the
  order of their keys, which is the equality of maps.

  A \<^verbatim>\<open>datetime\<close> is an instant, counted in whole seconds since the epoch: every
  datetime the program itself makes is \<^verbatim>\<open>datetime.now(timezone.utc)\<close>, optionally
  moved by a \<^verbatim>\<open>timedelta\<close>. The sub-second part of the clock is not modelled.
  A float is a real number; the program stores and returns prices and never computes
  with them.
\<close>

type_synonym datetime = int

datatype pyval =
    PNone
  | PInt int
  | PFloat real
  | PStr string
  | PDatetime datetime
  | PList "pyval list"
  | PDict "(string \<times> pyval) list"

type_synonym document = "string \<rightharpoonup> pyval"

text \<open>\<^verbatim>\<open>d.get(k)\<close>: the value under \<open>k\<close>, and \<^verbatim>\<open>None\<close> when the key is absent.\<close>

definition dict_get :: "document \<Rightarrow> string \<Rightarrow> pyval" where
  "dict_get d k = (case d k of None \<Rightarrow> PNone | Some v \<Rightarrow> v)"

text \<open>
  Exceptions are values. \<open>HTTPException\<close> is the one the framework turns into the
  response with that status code and detail; every other exception that leaves a handler
  is an unhandled server fault. \<open>ExpiredSignatureError\<close>, \<open>InvalidSignatureError\<close>,
  \<open>InvalidAlgorithmError\<close> and \<open>DecodeError\<close> are the token library's; all of them are
  subclasses of its \<open>InvalidTokenError\<close>.
\<close>

datatype exn =
    HTTPException nat string
  | ExpiredSignatureError
  | InvalidSignatureError
  | InvalidAlgorithmError
  | DecodeError
  | ValueError
  | UnknownHashError
  | KeyError
  | TypeError
  | AttributeError

fun is_InvalidTokenError :: "exn \<Rightarrow> bool" where
  "is_InvalidTokenError ExpiredSignatureError = True"
| "is_InvalidTokenError InvalidSignatureError = True"
| "is_InvalidTokenError InvalidAlgorithmError = True"
| "is_InvalidTokenError DecodeError = True"
| "is_InvalidTokenError _ = False"

definition HTTP_401_UNAUTHORIZED :: nat where
  "HTTP_401_UNAUTHORIZED = 401"

section \<open>Token service\<close>

definition ALGORITHM :: string where
  "ALGORITHM = ''HS256''"

definition ACCESS_TOKEN_EXPIRE_MINUTES :: int where
  "ACCESS_TOKEN_EXPIRE_MINUTES = 1440"

text \<open>\<^verbatim>\<open>timedelta(minutes=m)\<close>, in seconds.\<close>

definition timedelta_minutes :: "int \<Rightarrow> int" where
  "timedelta_minutes m = m * 60"

text \<open>
  Modelled from the spec: the token library behind \<^verbatim>\<open>jwt.encode\<close> and
  \<^verbatim>\<open>jwt.decode\<close> is an external package and not part of the sources. The spec
  (section 4.2) describes it: a token carries its payload and a signature made with the
  secret by a symmetric MAC; validation checks the signature first, then the expiry
  (rejected when now \<ge> expiry). The compact serialisation is kept abstract: a token is
  either three well-formed segments (the header's algorithm, the payload, the signature)
  or a string that does not decode. The MAC is symbolic: \<open>Mac alg key payload\<close> stands
  for the MAC of that payload under that key, \<open>Octets\<close> for any other signature bytes.
  Date claims given as datetimes are stored as numbers.
\<close>

datatype signature = Mac string string document | Octets string

datatype token = Compact string document signature | Opaque string

definition numeric_date :: "string \<Rightarrow> document \<Rightarrow> document" where
  "numeric_date k payload =
     (case payload k of Some (PDatetime d) \<Rightarrow> payload(k \<mapsto> PInt d) | _ \<Rightarrow> payload)"

definition jwt_encode :: "document \<Rightarrow> string \<Rightarrow> string \<Rightarrow> token" where
  "jwt_encode payload key algorithm =
     (let p = numeric_date ''nbf'' (numeric_date ''iat'' (numeric_date ''exp'' payload))
      in Compact algorithm p (Mac algorithm key p))"

definition jwt_decode :: "token \<Rightarrow> string \<Rightarrow> string list \<Rightarrow> datetime \<Rightarrow> exn + document" where
  "jwt_decode tok key algorithms now =
     (case tok of
        Opaque _ \<Rightarrow> Inl DecodeError
      | Compact alg payload sg \<Rightarrow>
          if \<not> List.member algorithms alg then Inl InvalidAlgorithmError
          else if sg \<noteq> Mac alg key payload then Inl InvalidSignatureError
          else (case payload ''exp'' of
                  None \<Rightarrow> Inr payload
                | Some (PInt e) \<Rightarrow> if e \<le> now then Inl ExpiredSignatureError else Inr payload
                | Some _ \<Rightarrow> Inl DecodeError))"

text \<open>The bearer credential the framework extracts from the request header.\<close>

record HTTPAuthorizationCredentials =
  scheme :: string
  credentials :: token

text \<open>
  \<open>create_access_token\<close> (lines 92-97). \<open>SECRET_KEY\<close> is the process-wide secret and
  \<open>now\<close> the reading of the clock taken by \<^verbatim>\<open>datetime.now(timezone.utc)\<close>.
\<close>

definition create_access_token :: "string \<Rightarrow> datetime \<Rightarrow> document \<Rightarrow> token" where
  "create_access_token SECRET_KEY now data =
     (let to_encode = data;
          expire = now + timedelta_minutes ACCESS_TOKEN_EXPIRE_MINUTES;
          to_encode = to_encode(''exp'' \<mapsto> PDatetime expire)
      in jwt_encode to_encode SECRET_KEY ALGORITHM)"

text \<open>
  \<open>verify_token\<close> (lines 99-110). The \<open>HTTPException\<close> raised inside the \<^verbatim>\<open>try\<close>
  is not one of the two caught classes and leaves the function as it is. \<open>now\<close> is the
  clock as the library reads it while decoding.
\<close>

definition verify_token ::
  "string \<Rightarrow> datetime \<Rightarrow> HTTPAuthorizationCredentials \<Rightarrow> exn + pyval" where
  "verify_token SECRET_KEY now creds =
     (let tok = credentials creds in
      case jwt_decode tok SECRET_KEY [ALGORITHM] now of
        Inr payload \<Rightarrow>
          (let username = dict_get payload ''sub'' in
           if username = PNone
           then Inl (HTTPException HTTP_401_UNAUTHORIZED ''Invalid token'')
           else Inr username)
      | Inl e \<Rightarrow>
          if e = ExpiredSignatureError
          then Inl (HTTPException HTTP_401_UNAUTHORIZED ''Token expired'')
          else if is_InvalidTokenError e
          then Inl (HTTPException HTTP_401_UNAUTHORIZED ''Invalid token'')
          else Inl e)"

section \<open>Password hasher\<close>

text \<open>
  \<open>hash_password\<close> and \<open>verify_password\<close> (lines 86-90) hand their arguments to the
  hashing context \<^verbatim>\<open>pwd_context\<close> of an external package and return what it returns.
  The context's two operations are parameters: \<open>ctx_hash\<close> is one call of its
  \<^verbatim>\<open>hash\<close> (the salt it draws is part of the call), \<open>ctx_verify\<close> its
  \<^verbatim>\<open>verify\<close>, which returns a truth value or raises. The hash handed to
  \<open>verify_password\<close> is whatever value the admin's document holds.
\<close>

definition hash_password :: "(string \<Rightarrow> string) \<Rightarrow> string \<Rightarrow> string" where
  "hash_password ctx_hash password = ctx_hash password"

definition verify_password ::
  "(string \<Rightarrow> pyval \<Rightarrow> exn + bool) \<Rightarrow> string \<Rightarrow> pyval \<Rightarrow> exn + bool" where
  "verify_password ctx_verify plain_password hashed_password =
     ctx_verify plain_password hashed_password"

section \<open>Record normalizer\<close>

text \<open>
  \<open>prepare_for_mongo\<close> (lines 112-118) and \<open>parse_from_mongo\<close> (lines 120-126). Both
  assign into the dictionary they are given and return that same dictionary; the model
  returns the dictionary as it is after the assignments. \<^verbatim>\<open>datetime.isoformat\<close> and
  \<^verbatim>\<open>datetime.fromisoformat\<close> belong to the language's library and are parameters;
  \<open>fromisoformat\<close> raises (\<open>Inl\<close>) on a string it does not accept. Each helper below is
  one \<^verbatim>\<open>if isinstance(...)\<close> statement of the source.
\<close>

definition datetime_to_str :: "(datetime \<Rightarrow> string) \<Rightarrow> string \<Rightarrow> document \<Rightarrow> document" where
  "datetime_to_str isoformat k data =
     (case dict_get data k of
        PDatetime d \<Rightarrow> data(k \<mapsto> PStr (isoformat d))
      | _ \<Rightarrow> data)"

definition prepare_for_mongo :: "(datetime \<Rightarrow> string) \<Rightarrow> document \<Rightarrow> document" where
  "prepare_for_mongo isoformat data =
     (let data = datetime_to_str isoformat ''created_at'' data;
          data = datetime_to_str isoformat ''updated_at'' data
      in data)"

definition str_to_datetime ::
  "(string \<Rightarrow> exn + datetime) \<Rightarrow> string \<Rightarrow> document \<Rightarrow> exn + document" where
  "str_to_datetime fromisoformat k item =
     (case dict_get item k of
        PStr s \<Rightarrow>
          (case fromisoformat s of
             Inl e \<Rightarrow> Inl e
           | Inr d \<Rightarrow> Inr (item(k \<mapsto> PDatetime d)))
      | _ \<Rightarrow> Inr item)"

definition parse_from_mongo ::
  "(string \<Rightarrow> exn + datetime) \<Rightarrow> document \<Rightarrow> exn + document" where
  "parse_from_mongo fromisoformat item =
     (case str_to_datetime fromisoformat ''created_at'' item of
        Inl e \<Rightarrow> Inl e
      | Inr item \<Rightarrow> str_to_datetime fromisoformat ''updated_at'' item)"

section \<open>Document store\<close>

text \<open>
  Modelled from the spec: the document database is an external service and not part of
  the sources. The spec (section 6) gives its interface: \<open>findOne\<close>, \<open>findMany\<close> with a
  limit, \<open>insertOne\<close>, \<open>updateOne\<close> and \<open>deleteOne\<close> over a collection of documents,
  each acting on the first document that matches the filter. A collection is the list
  of its documents in the store's own order. Every filter of the program is an equality
  on one field. The store's internal identifier is left out of the documents: every
  read of a product projects it away, and no code reads it.
\<close>

type_synonym collection = "document list"

record database =
  admins :: collection
  products :: collection

definition matches :: "string \<Rightarrow> pyval \<Rightarrow> document \<Rightarrow> bool" where
  "matches field v d = (d field = Some v)"

definition find_one :: "string \<Rightarrow> pyval \<Rightarrow> collection \<Rightarrow> document option" where
  "find_one field v c = List.find (matches field v) c"

definition to_list :: "nat \<Rightarrow> collection \<Rightarrow> document list" where
  "to_list n c = take n c"

definition insert_one :: "document \<Rightarrow> collection \<Rightarrow> collection" where
  "insert_one doc c = c @ [doc]"

text \<open>\<open>update_one\<close> with a \<^verbatim>\<open>$set\<close> document: the fields given overwrite the stored ones.\<close>

fun update_one :: "string \<Rightarrow> pyval \<Rightarrow> document \<Rightarrow> collection \<Rightarrow> collection" where
  "update_one field v upd [] = []"
| "update_one field v upd (d # ds) =
     (if matches field v d then (d ++ upd) # ds else d # update_one field v upd ds)"

text \<open>\<open>delete_one\<close> returns the number of documents it deleted and what is left.\<close>

fun delete_one :: "string \<Rightarrow> pyval \<Rightarrow> collection \<Rightarrow> nat \<times> collection" where
  "delete_one field v [] = (0, [])"
| "delete_one field v (d # ds) =
     (if matches field v d then (1, ds)
      else (let (n, rest) = delete_one field v ds in (n, d # rest)))"

text \<open>
  \<^verbatim>\<open>not x\<close> for the result of \<open>find_one\<close>: true for \<^verbatim>\<open>None\<close> and for the empty
  dictionary.
\<close>

definition not_doc :: "document option \<Rightarrow> bool" where
  "not_doc x = (case x of None \<Rightarrow> True | Some d \<Rightarrow> d = Map.empty)"

section \<open>Models\<close>

text \<open>
  The typed models of lines 40-83. Field names carry the model's initial, since the
  models share field names: \<open>p_\<close> for \<open>Product\<close>, \<open>pc_\<close> for \<open>ProductCreate\<close>, \<open>pu_\<close>
  for \<open>ProductUpdate\<close>, \<open>v_\<close> for \<open>ProductVariant\<close>, \<open>a_\<close> for \<open>Admin\<close>, \<open>l_\<close> for
  \<open>AdminLogin\<close> and \<open>r_\<close> for \<open>AdminLoginResponse\<close>.
\<close>

record Admin =
  a_id :: string
  a_username :: string
  a_password_hash :: string

record AdminLogin =
  l_username :: string
  l_password :: string

record AdminLoginResponse =
  r_access_token :: token
  r_token_type :: string
  r_username :: pyval

record ProductVariant =
  v_size :: "string option"
  v_color :: "string option"
  v_inventory :: int

record Product =
  p_id :: string
  p_name :: string
  p_price :: real
  p_description :: string
  p_images :: "string list"
  p_variants :: "ProductVariant list"
  p_created_at :: datetime
  p_updated_at :: datetime

record ProductCreate =
  pc_name :: string
  pc_price :: real
  pc_description :: string
  pc_images :: "string list"
  pc_variants :: "ProductVariant list"

record ProductUpdate =
  pu_name :: "string option"
  pu_price :: "real option"
  pu_description :: "string option"
  pu_images :: "string list option"
  pu_variants :: "ProductVariant list option"

text \<open>\<^verbatim>\<open>model_dump()\<close> of each model: the dictionary of its fields.\<close>

definition optional :: "('a \<Rightarrow> pyval) \<Rightarrow> 'a option \<Rightarrow> pyval" where
  "optional f x = (case x of None \<Rightarrow> PNone | Some a \<Rightarrow> f a)"

definition ProductVariant_dump :: "ProductVariant \<Rightarrow> pyval" where
  "ProductVariant_dump v =
     PDict [(''size'', optional PStr (v_size v)),
            (''color'', optional PStr (v_color v)),
            (''inventory'', PInt (v_inventory v))]"

definition images_dump :: "string list \<Rightarrow> pyval" where
  "images_dump xs = PList (map PStr xs)"

definition variants_dump :: "ProductVariant list \<Rightarrow> pyval" where
  "variants_dump vs = PList (map ProductVariant_dump vs)"

definition Admin_dump :: "Admin \<Rightarrow> document" where
  "Admin_dump a =
     [''id'' \<mapsto> PStr (a_id a),
      ''username'' \<mapsto> PStr (a_username a),
      ''password_hash'' \<mapsto> PStr (a_password_hash a)]"

definition Product_dump :: "Product \<Rightarrow> document" where
  "Product_dump p =
     [''id'' \<mapsto> PStr (p_id p),
      ''name'' \<mapsto> PStr (p_name p),
      ''price'' \<mapsto> PFloat (p_price p),
      ''description'' \<mapsto> PStr (p_description p),
      ''images'' \<mapsto> images_dump (p_images p),
      ''variants'' \<mapsto> variants_dump (p_variants p),
      ''created_at'' \<mapsto> PDatetime (p_created_at p),
      ''updated_at'' \<mapsto> PDatetime (p_updated_at p)]"

text \<open>The items of \<open>ProductUpdate.model_dump()\<close>, in field order.\<close>

definition ProductUpdate_items :: "ProductUpdate \<Rightarrow> (string \<times> pyval) list" where
  "ProductUpdate_items u =
     [(''name'', optional PStr (pu_name u)),
      (''price'', optional PFloat (pu_price u)),
      (''description'', optional PStr (pu_description u)),
      (''images'', optional images_dump (pu_images u)),
      (''variants'', optional variants_dump (pu_variants u))]"

text \<open>
  \<^verbatim>\<open>Product(**product_data.model_dump())\<close>: the request's fields, and the three fields
  with a default factory, which the constructor calls one after the other in the order
  of the fields: \<^verbatim>\<open>uuid.uuid4()\<close> for \<open>id\<close>, then \<^verbatim>\<open>datetime.now(timezone.utc)\<close>
  for \<open>created_at\<close>, then \<^verbatim>\<open>datetime.now(timezone.utc)\<close> again for \<open>updated_at\<close>.
  \<open>uuid4\<close>, \<open>now1\<close> and \<open>now2\<close> are what these three calls return.
\<close>

definition new_Product :: "string \<Rightarrow> datetime \<Rightarrow> datetime \<Rightarrow> ProductCreate \<Rightarrow> Product" where
  "new_Product uuid4 now1 now2 product_data =
     \<lparr>p_id = uuid4,
      p_name = pc_name product_data,
      p_price = pc_price product_data,
      p_description = pc_description product_data,
      p_images = pc_images product_data,
      p_variants = pc_variants product_data,
      p_created_at = now1,
      p_updated_at = now2\<rparr>"

section \<open>Bootstrap and login\<close>

text \<open>The two optional configuration values read at startup.\<close>

record environ =
  ADMIN_USERNAME :: "string option"
  ADMIN_PASSWORD :: "string option"

text \<open>\<^verbatim>\<open>not x\<close> for a configuration value: true for \<^verbatim>\<open>None\<close> and for the empty string.\<close>

definition not_str :: "string option \<Rightarrow> bool" where
  "not_str x = (case x of None \<Rightarrow> True | Some s \<Rightarrow> s = [])"

text \<open>
  \<open>create_default_admin\<close> (lines 129-149), run once at startup. \<open>uuid4\<close> is the
  identifier the \<open>Admin\<close> model draws for a new admin. The log lines are left out.
\<close>

definition create_default_admin ::
  "(string \<Rightarrow> string) \<Rightarrow> string \<Rightarrow> environ \<Rightarrow> database \<Rightarrow> database" where
  "create_default_admin ctx_hash uuid4 env db =
     (let new_admin_username = ADMIN_USERNAME env;
          new_admin_password = ADMIN_PASSWORD env
      in if not_str new_admin_username \<or> not_str new_admin_password then db
         else
           (case (new_admin_username, new_admin_password) of
              (Some username, Some password) \<Rightarrow>
                (let existing_admin = find_one ''username'' (PStr username) (admins db)
                 in if not_doc existing_admin
                    then
                      (let admin = \<lparr>a_id = uuid4, a_username = username,
                                     a_password_hash = hash_password ctx_hash password\<rparr>
                       in db\<lparr>admins := insert_one (Admin_dump admin) (admins db)\<rparr>)
                    else db)
            | _ \<Rightarrow> db))"

text \<open>
  \<open>admin_login\<close> (lines 170-184). \<^verbatim>\<open>admin["password_hash"]\<close> raises \<open>KeyError\<close> when
  the stored document has no such field.
\<close>

definition admin_login ::
  "(string \<Rightarrow> pyval \<Rightarrow> exn + bool) \<Rightarrow> string \<Rightarrow> datetime \<Rightarrow> database \<Rightarrow> AdminLogin
     \<Rightarrow> exn + AdminLoginResponse" where
  "admin_login ctx_verify SECRET_KEY now db login_data =
     (let admin = find_one ''username'' (PStr (l_username login_data)) (admins db);
          unauthorized = Inl (HTTPException HTTP_401_UNAUTHORIZED ''Incorrect username or password'')
      in if not_doc admin then unauthorized
         else
           (case admin of
              None \<Rightarrow> unauthorized
            | Some admin \<Rightarrow>
                (case admin ''password_hash'' of
                   None \<Rightarrow> Inl KeyError
                 | Some h \<Rightarrow>
                     (case verify_password ctx_verify (l_password login_data) h of
                        Inl e \<Rightarrow> Inl e
                      | Inr ok \<Rightarrow>
                          if \<not> ok then unauthorized
                          else
                            (let access_token =
                                   create_access_token SECRET_KEY now
                                     [''sub'' \<mapsto> dict_get admin ''username'']
                             in Inr \<lparr>r_access_token = access_token,
                                     r_token_type = ''bearer'',
                                     r_username = dict_get admin ''username''\<rparr>)))))"

section \<open>Product repository\<close>

text \<open>
  The handlers of lines 153-234, as the functions the framework calls once it has
  resolved their arguments; \<open>username\<close> is the value \<open>verify_token\<close> returned for the
  admin routes. A handler that writes returns the database as it leaves it.

  The loop of \<open>get_all_products\<close> and \<open>get_admin_products\<close> calls \<open>parse_from_mongo\<close> on
  each dictionary of the list. \<open>parse_from_mongo\<close> assigns into the dictionary it is
  given, which is the very object the list holds, so the list returned holds the parsed
  dictionaries. An exception in any call ends the handler.
\<close>

fun parse_each :: "(string \<Rightarrow> exn + datetime) \<Rightarrow> document list \<Rightarrow> exn + document list" where
  "parse_each fromisoformat [] = Inr []"
| "parse_each fromisoformat (product # rest) =
     (case parse_from_mongo fromisoformat product of
        Inl e \<Rightarrow> Inl e
      | Inr product \<Rightarrow>
          (case parse_each fromisoformat rest of
             Inl e \<Rightarrow> Inl e
           | Inr rest \<Rightarrow> Inr (product # rest)))"

definition get_all_products ::
  "(string \<Rightarrow> exn + datetime) \<Rightarrow> database \<Rightarrow> exn + document list" where
  "get_all_products fromisoformat db =
     (let products = to_list 1000 (products db)
      in parse_each fromisoformat products)"

definition get_admin_products ::
  "(string \<Rightarrow> exn + datetime) \<Rightarrow> database \<Rightarrow> pyval \<Rightarrow> exn + document list" where
  "get_admin_products fromisoformat db username =
     (let products = to_list 1000 (products db)
      in parse_each fromisoformat products)"

definition get_product ::
  "(string \<Rightarrow> exn + datetime) \<Rightarrow> database \<Rightarrow> string \<Rightarrow> exn + document" where
  "get_product fromisoformat db product_id =
     (let product = find_one ''id'' (PStr product_id) (products db)
      in if not_doc product then Inl (HTTPException 404 ''Product not found'')
         else (case product of
                 None \<Rightarrow> Inl (HTTPException 404 ''Product not found'')
               | Some product \<Rightarrow> parse_from_mongo fromisoformat product))"

definition create_product ::
  "(datetime \<Rightarrow> string) \<Rightarrow> string \<Rightarrow> datetime \<Rightarrow> datetime \<Rightarrow> database \<Rightarrow> ProductCreate
     \<Rightarrow> pyval \<Rightarrow> Product \<times> database" where
  "create_product isoformat uuid4 now1 now2 db product_data username =
     (let product = new_Product uuid4 now1 now2 product_data;
          doc = prepare_for_mongo isoformat (Product_dump product);
          db = db\<lparr>products := insert_one doc (products db)\<rparr>
      in (product, db))"

text \<open>
  \<open>update_product\<close> (lines 208-226). \<open>now\<close> is the reading of the clock at line 220.
  The second \<open>find_one\<close> can only fail when the document has gone in between;
  \<open>parse_from_mongo\<close> of \<^verbatim>\<open>None\<close> raises \<open>AttributeError\<close>.
\<close>

definition update_product ::
  "(datetime \<Rightarrow> string) \<Rightarrow> (string \<Rightarrow> exn + datetime) \<Rightarrow> datetime \<Rightarrow> database \<Rightarrow> string
     \<Rightarrow> ProductUpdate \<Rightarrow> pyval \<Rightarrow> (exn + document) \<times> database" where
  "update_product isoformat fromisoformat now db product_id product_data username =
     (let existing_product = find_one ''id'' (PStr product_id) (products db)
      in if not_doc existing_product
         then (Inl (HTTPException 404 ''Product not found''), db)
         else
           (let update_data =
                  map_of (filter (\<lambda>(k, v). v \<noteq> PNone) (ProductUpdate_items product_data));
                update_data = update_data(''updated_at'' \<mapsto> PDatetime now);
                update_doc = prepare_for_mongo isoformat update_data;
                db = db\<lparr>products := update_one ''id'' (PStr product_id) update_doc (products db)\<rparr>;
                updated_product = find_one ''id'' (PStr product_id) (products db)
            in (case updated_product of
                  None \<Rightarrow> (Inl AttributeError, db)
                | Some updated_product \<Rightarrow> (parse_from_mongo fromisoformat updated_product, db))))"

definition delete_product ::
  "database \<Rightarrow> string \<Rightarrow> pyval \<Rightarrow> (exn + string) \<times> database" where
  "delete_product db product_id username =
     (let (deleted_count, rest) = delete_one ''id'' (PStr product_id) (products db);
          db = db\<lparr>products := rest\<rparr>
      in if deleted_count = 0
         then (Inl (HTTPException 404 ''Product not found''), db)
         else (Inr ''Product deleted successfully'', db))"

section \<open>Reference instances of the library parameters\<close>

text \<open>
  The theorems below hold for every \<open>isoformat\<close>, \<open>fromisoformat\<close> and hashing context.
  To run them on concrete values, this section gives one instance of each. The two
  timestamp functions print and read the form the language's library gives a UTC
  datetime with whole seconds, \<^verbatim>\<open>YYYY-MM-DDTHH:MM:SS+00:00\<close>; the reader rejects every
  other string with \<open>ValueError\<close>.
\<close>

definition digit_char :: "nat \<Rightarrow> char" where
  "digit_char n = ''0123456789'' ! (n mod 10)"

definition pad2 :: "nat \<Rightarrow> string" where
  "pad2 n = [digit_char (n div 10), digit_char n]"

definition pad4 :: "nat \<Rightarrow> string" where
  "pad4 n = [digit_char (n div 1000), digit_char (n div 100), digit_char (n div 10), digit_char n]"

definition digit_val :: "char \<Rightarrow> nat option" where
  "digit_val c =
     map_of [(CHR ''0'', 0), (CHR ''1'', 1), (CHR ''2'', 2), (CHR ''3'', 3), (CHR ''4'', 4),
             (CHR ''5'', 5), (CHR ''6'', 6), (CHR ''7'', 7), (CHR ''8'', 8), (CHR ''9'', 9)] c"

fun number :: "string \<Rightarrow> nat \<Rightarrow> nat option" where
  "number [] acc = Some acc"
| "number (c # cs) acc =
     (case digit_val c of None \<Rightarrow> None | Some d \<Rightarrow> number cs (10 * acc + d))"

text \<open>Days since the epoch and the civil date, in the proleptic Gregorian calendar.\<close>

definition days_from_civil :: "int \<Rightarrow> int \<Rightarrow> int \<Rightarrow> int" where
  "days_from_civil y m d =
     (let y = (if m \<le> 2 then y - 1 else y);
          era = y div 400;
          yoe = y - era * 400;
          doy = (153 * (if m > 2 then m - 3 else m + 9) + 2) div 5 + d - 1;
          doe = yoe * 365 + yoe div 4 - yoe div 100 + doy
      in era * 146097 + doe - 719468)"

definition civil_from_days :: "int \<Rightarrow> int \<times> int \<times> int" where
  "civil_from_days z =
     (let z = z + 719468;
          era = z div 146097;
          doe = z - era * 146097;
          yoe = (doe - doe div 1460 + doe div 36524 - doe div 146096) div 365;
          doy = doe - (365 * yoe + yoe div 4 - yoe div 100);
          mp = (5 * doy + 2) div 153;
          d = doy - (153 * mp + 2) div 5 + 1;
          m = (if mp < 10 then mp + 3 else mp - 9);
          y = yoe + era * 400
      in (if m \<le> 2 then y + 1 else y, m, d))"

definition days_in_month :: "int \<Rightarrow> int \<Rightarrow> int" where
  "days_in_month y m =
     (if m = 2 then (if y mod 4 = 0 \<and> (y mod 100 \<noteq> 0 \<or> y mod 400 = 0) then 29 else 28)
      else if m = 4 \<or> m = 6 \<or> m = 9 \<or> m = 11 then 30
      else 31)"

definition utc_isoformat :: "datetime \<Rightarrow> string" where
  "utc_isoformat t =
     (let (y, m, d) = civil_from_days (t div 86400);
          s = t mod 86400
      in pad4 (nat y) @ ''-'' @ pad2 (nat m) @ ''-'' @ pad2 (nat d) @ ''T''
         @ pad2 (nat (s div 3600)) @ '':'' @ pad2 (nat (s mod 3600 div 60)) @ '':''
         @ pad2 (nat (s mod 60)) @ ''+00:00'')"

definition utc_fromisoformat :: "string \<Rightarrow> exn + datetime" where
  "utc_fromisoformat s =
     (if length s \<noteq> 25 \<or> s ! 4 \<noteq> CHR ''-'' \<or> s ! 7 \<noteq> CHR ''-'' \<or> s ! 10 \<noteq> CHR ''T''
         \<or> s ! 13 \<noteq> CHR '':'' \<or> s ! 16 \<noteq> CHR '':'' \<or> drop 19 s \<noteq> ''+00:00''
      then Inl ValueError
      else
        (case (number (take 4 s) 0, number (take 2 (drop 5 s)) 0, number (take 2 (drop 8 s)) 0,
               number (take 2 (drop 11 s)) 0, number (take 2 (drop 14 s)) 0,
               number (take 2 (drop 17 s)) 0) of
           (Some y, Some m, Some d, Some h, Some mi, Some sec) \<Rightarrow>
             if 1 \<le> y \<and> 1 \<le> m \<and> m \<le> 12 \<and> 1 \<le> d \<and> int d \<le> days_in_month (int y) (int m)
                \<and> h < 24 \<and> mi < 60 \<and> sec < 60
             then Inr (days_from_civil (int y) (int m) (int d) * 86400
                       + int h * 3600 + int mi * 60 + int sec)
             else Inl ValueError
         | _ \<Rightarrow> Inl ValueError))"

text \<open>
  An instance of the hashing context's \<^verbatim>\<open>verify\<close> for the one configured scheme. The
  package documents that \<^verbatim>\<open>verify\<close> returns false for the hash \<^verbatim>\<open>None\<close>, raises
  \<open>TypeError\<close> for a hash that is no string, and raises when the hash string is of none
  of the configured schemes, which for this scheme are the strings that do not begin
  with its identifier. The digest of this instance is a placeholder (the salt followed
  by the plain text): only the path taken on a hash string matters where it is used.
\<close>

definition sample_hash :: "string \<Rightarrow> string \<Rightarrow> string" where
  "sample_hash salt password = ''$2b$12$'' @ salt @ password"

definition sample_verify :: "string \<Rightarrow> pyval \<Rightarrow> exn + bool" where
  "sample_verify plain hashed =
     (case hashed of
        PNone \<Rightarrow> Inr False
      | PStr h \<Rightarrow>
          if take 7 h = ''$2b$12$'' \<and> 29 \<le> length h
          then Inr (h = sample_hash (take 22 (drop 7 h)) plain)
          else Inl UnknownHashError
      | _ \<Rightarrow> Inl TypeError)"

section \<open>Sample data\<close>

text \<open>The request of the spec's scenario, a stored product, and a store of many products.\<close>

definition shirt :: ProductCreate where
  "shirt =
     \<lparr>pc_name = ''Shirt'', pc_price = 1999 / 100, pc_description = ''A shirt'',
      pc_images = [],
      pc_variants = [\<lparr>v_size = Some ''M'', v_color = None, v_inventory = 5\<rparr>]\<rparr>"

definition price_only :: ProductUpdate where
  "price_only =
     \<lparr>pu_name = None, pu_price = Some (2499 / 100), pu_description = None,
      pu_images = None, pu_variants = None\<rparr>"

definition stored_shirt :: document where
  "stored_shirt =
     [''id'' \<mapsto> PStr ''p1'',
      ''name'' \<mapsto> PStr ''Shirt'',
      ''price'' \<mapsto> PFloat (1999 / 100),
      ''created_at'' \<mapsto> PStr ''2023-11-14T22:13:20+00:00'',
      ''updated_at'' \<mapsto> PStr ''2023-11-14T22:13:20+00:00'']"

definition shop :: database where
  "shop = \<lparr>admins = [], products = [stored_shirt]\<rparr>"

definition numbered_product :: "nat \<Rightarrow> document" where
  "numbered_product n = [''id'' \<mapsto> PStr (replicate n (CHR ''i''))]"

definition big_shop :: database where
  "big_shop = \<lparr>admins = [], products = map numbered_product [0..<1001]\<rparr>"

section \<open>Token service: issue and validate\<close>

text \<open>
  C1. A token issued for a subject \<open>s\<close> and presented with the same secret before its
  lifetime of 1440 minutes has run out is accepted, and validation returns \<open>s\<close>. In
  particular this holds at the moment of issue.
\<close>

theorem verify_issued_token:
  assumes "now < issued + timedelta_minutes ACCESS_TOKEN_EXPIRE_MINUTES"
  shows "verify_token SECRET_KEY now
           \<lparr>scheme = sch,
            credentials = create_access_token SECRET_KEY issued [''sub'' \<mapsto> PStr s]\<rparr>
         = Inr (PStr s)"
  using assms
  by (simp add: verify_token_def create_access_token_def jwt_decode_def jwt_encode_def
      numeric_date_def dict_get_def Let_def ALGORITHM_def)

text \<open>The instance at the moment of issue, for the subject \<open>admin\<close>.\<close>

theorem verify_issued_token_witness:
  "(1700000000 :: int) < 1700000000 + timedelta_minutes ACCESS_TOKEN_EXPIRE_MINUTES
   \<and> verify_token ''secret'' 1700000000
        \<lparr>scheme = ''Bearer'',
         credentials = create_access_token ''secret'' 1700000000 [''sub'' \<mapsto> PStr ''admin'']\<rparr>
       = Inr (PStr ''admin'')"
proof -
  have h: "(1700000000 :: int) < 1700000000 + timedelta_minutes ACCESS_TOKEN_EXPIRE_MINUTES"
    by (simp add: timedelta_minutes_def ACCESS_TOKEN_EXPIRE_MINUTES_def)
  from h verify_issued_token[OF h, of "''secret''" "''Bearer''" "''admin''"]
  show ?thesis by simp
qed

text \<open>
  The outcomes of validation, one lemma for each way a credential fails: a string that
  is no token, a signature that is not the MAC of the payload under the secret (or an
  algorithm that is not the configured one), an expiry that has passed, and a payload
  without a subject.
\<close>

lemma verify_token_Opaque:
  "verify_token key now \<lparr>scheme = sch, credentials = Opaque s\<rparr>
     = Inl (HTTPException 401 ''Invalid token'')"
  by (simp add: verify_token_def jwt_decode_def HTTP_401_UNAUTHORIZED_def)

lemma verify_token_bad_signature:
  "sg \<noteq> Mac alg key payload \<Longrightarrow>
   verify_token key now \<lparr>scheme = sch, credentials = Compact alg payload sg\<rparr>
     = Inl (HTTPException 401 ''Invalid token'')"
  by (auto simp add: verify_token_def jwt_decode_def HTTP_401_UNAUTHORIZED_def)

lemma verify_token_expired:
  "payload ''exp'' = Some (PInt e) \<Longrightarrow> e \<le> now \<Longrightarrow>
   verify_token key now
     \<lparr>scheme = sch, credentials = Compact ALGORITHM payload (Mac ALGORITHM key payload)\<rparr>
     = Inl (HTTPException 401 ''Token expired'')"
  by (simp add: verify_token_def jwt_decode_def HTTP_401_UNAUTHORIZED_def)

lemma verify_token_no_subject:
  "payload ''exp'' = Some (PInt e) \<Longrightarrow> now < e \<Longrightarrow> dict_get payload ''sub'' = PNone \<Longrightarrow>
   verify_token key now
     \<lparr>scheme = sch, credentials = Compact ALGORITHM payload (Mac ALGORITHM key payload)\<rparr>
     = Inl (HTTPException 401 ''Invalid token'')"
  by (simp add: verify_token_def jwt_decode_def HTTP_401_UNAUTHORIZED_def)

lemma verify_token_outcomes:
  "verify_token key now creds = Inl (HTTPException 401 ''Invalid token'')
   \<or> verify_token key now creds = Inl (HTTPException 401 ''Token expired'')
   \<or> (\<exists>u. u \<noteq> PNone \<and> verify_token key now creds = Inr u)"
proof (cases "jwt_decode (credentials creds) key [ALGORITHM] now")
  case (Inl e)
  have "e = DecodeError \<or> e = InvalidAlgorithmError \<or> e = InvalidSignatureError
        \<or> e = ExpiredSignatureError"
    using Inl
    by (auto simp add: jwt_decode_def split: token.splits if_splits option.splits pyval.splits)
  with Inl show ?thesis
    by (auto simp add: verify_token_def HTTP_401_UNAUTHORIZED_def)
next
  case (Inr payload)
  then show ?thesis
    by (simp add: verify_token_def HTTP_401_UNAUTHORIZED_def Let_def)
qed

text \<open>
  C2, as the code has it. Validation never ends in a server fault: it returns a subject
  or raises the 401 exception. The status code is the same for every failing
  credential, but the detail is not: an elapsed expiry is reported as
  \<open>Token expired\<close>, a tampered signature, a malformed token and a token without a
  subject as \<open>Invalid token\<close>.
\<close>

theorem verify_token_unauthenticated:
  "(verify_token key now creds = Inl (HTTPException 401 ''Invalid token'')
      \<or> verify_token key now creds = Inl (HTTPException 401 ''Token expired'')
      \<or> (\<exists>u. u \<noteq> PNone \<and> verify_token key now creds = Inr u))
   \<and> verify_token key now \<lparr>scheme = sch, credentials = Opaque s\<rparr>
       = Inl (HTTPException 401 ''Invalid token'')
   \<and> (sg \<noteq> Mac alg key payload \<longrightarrow>
        verify_token key now \<lparr>scheme = sch, credentials = Compact alg payload sg\<rparr>
          = Inl (HTTPException 401 ''Invalid token''))
   \<and> (payload ''exp'' = Some (PInt e) \<and> e \<le> now \<longrightarrow>
        verify_token key now
          \<lparr>scheme = sch, credentials = Compact ALGORITHM payload (Mac ALGORITHM key payload)\<rparr>
          = Inl (HTTPException 401 ''Token expired''))
   \<and> (payload ''exp'' = Some (PInt e) \<and> now < e \<and> dict_get payload ''sub'' = PNone \<longrightarrow>
        verify_token key now
          \<lparr>scheme = sch, credentials = Compact ALGORITHM payload (Mac ALGORITHM key payload)\<rparr>
          = Inl (HTTPException 401 ''Invalid token''))"
  using verify_token_outcomes[of key now creds] verify_token_Opaque[of key now sch s]
    verify_token_bad_signature[of sg alg key payload now sch]
    verify_token_expired[of payload e now key sch]
    verify_token_no_subject[of payload e now key sch]
  by blast

text \<open>
  The claim that the response is the same for all causes fails: an expired token and a
  token with a forged signature, validated at the same moment under the same secret,
  get different responses.
\<close>

theorem verify_token_detail_differs:
  "verify_token ''secret'' 1700000000
     \<lparr>scheme = ''Bearer'',
      credentials = create_access_token ''secret'' 1699000000 [''sub'' \<mapsto> PStr ''admin'']\<rparr>
     = Inl (HTTPException 401 ''Token expired'')
   \<and> verify_token ''secret'' 1700000000
     \<lparr>scheme = ''Bearer'',
      credentials = Compact ''HS256'' [''sub'' \<mapsto> PStr ''admin'', ''exp'' \<mapsto> PInt 1800000000]
                      (Octets ''forged'')\<rparr>
     = Inl (HTTPException 401 ''Invalid token'')
   \<and> verify_token ''secret'' 1700000000
     \<lparr>scheme = ''Bearer'',
      credentials = create_access_token ''secret'' 1699000000 [''sub'' \<mapsto> PStr ''admin'']\<rparr>
     \<noteq> verify_token ''secret'' 1700000000
     \<lparr>scheme = ''Bearer'',
      credentials = Compact ''HS256'' [''sub'' \<mapsto> PStr ''admin'', ''exp'' \<mapsto> PInt 1800000000]
                      (Octets ''forged'')\<rparr>"
  by (simp add: verify_token_def create_access_token_def jwt_decode_def jwt_encode_def
      numeric_date_def dict_get_def Let_def ALGORITHM_def HTTP_401_UNAUTHORIZED_def
      timedelta_minutes_def ACCESS_TOKEN_EXPIRE_MINUTES_def)

text \<open>A forged signature, an expired token and a token without a subject.\<close>

theorem verify_token_unauthenticated_witness:
  "Octets ''forged'' \<noteq> Mac ''HS256'' ''secret'' [''sub'' \<mapsto> PStr ''admin'', ''exp'' \<mapsto> PInt 1800000000]
   \<and> verify_token ''secret'' 1700000000
        \<lparr>scheme = ''Bearer'',
         credentials = Compact ''HS256'' [''sub'' \<mapsto> PStr ''admin'', ''exp'' \<mapsto> PInt 1800000000]
                         (Octets ''forged'')\<rparr>
       = Inl (HTTPException 401 ''Invalid token'')
   \<and> [''sub'' \<mapsto> PStr ''admin'', ''exp'' \<mapsto> PInt 1600000000] ''exp'' = Some (PInt 1600000000)
   \<and> (1600000000 :: int) \<le> 1700000000
   \<and> verify_token ''secret'' 1700000000
        \<lparr>scheme = ''Bearer'',
         credentials = Compact ALGORITHM [''sub'' \<mapsto> PStr ''admin'', ''exp'' \<mapsto> PInt 1600000000]
           (Mac ALGORITHM ''secret'' [''sub'' \<mapsto> PStr ''admin'', ''exp'' \<mapsto> PInt 1600000000])\<rparr>
       = Inl (HTTPException 401 ''Token expired'')
   \<and> [''exp'' \<mapsto> PInt 1800000000] ''exp'' = Some (PInt 1800000000)
   \<and> (1700000000 :: int) < 1800000000
   \<and> dict_get [''exp'' \<mapsto> PInt 1800000000] ''sub'' = PNone
   \<and> verify_token ''secret'' 1700000000
        \<lparr>scheme = ''Bearer'',
         credentials = Compact ALGORITHM [''exp'' \<mapsto> PInt 1800000000]
           (Mac ALGORITHM ''secret'' [''exp'' \<mapsto> PInt 1800000000])\<rparr>
       = Inl (HTTPException 401 ''Invalid token'')"
  using
    verify_token_unauthenticated[of "''secret''" 1700000000
      "\<lparr>scheme = ''Bearer'', credentials = Opaque ''x''\<rparr>" "''Bearer''" "''x''"
      "Octets ''forged''" "''HS256''"
      "[''sub'' \<mapsto> PStr ''admin'', ''exp'' \<mapsto> PInt 1800000000]" 0]
    verify_token_unauthenticated[of "''secret''" 1700000000
      "\<lparr>scheme = ''Bearer'', credentials = Opaque ''x''\<rparr>" "''Bearer''" "''x''"
      "Octets ''forged''" "''HS256''"
      "[''sub'' \<mapsto> PStr ''admin'', ''exp'' \<mapsto> PInt 1600000000]" 1600000000]
    verify_token_unauthenticated[of "''secret''" 1700000000
      "\<lparr>scheme = ''Bearer'', credentials = Opaque ''x''\<rparr>" "''Bearer''" "''x''"
      "Octets ''forged''" "''HS256''"
      "[''exp'' \<mapsto> PInt 1800000000]" 1800000000]
  by (simp add: dict_get_def)

section \<open>The reference instances on sample values\<close>

text \<open>
  The printed form of three instants and what the reader makes of these strings and of
  a string that is no timestamp.
\<close>

lemma utc_isoformat_sample: "utc_isoformat 1700000000 = ''2023-11-14T22:13:20+00:00''"
  by code_simp

lemma utc_isoformat_sample2: "utc_isoformat 1700000600 = ''2023-11-14T22:23:20+00:00''"
  by code_simp

lemma utc_isoformat_sample3: "utc_isoformat 1699999000 = ''2023-11-14T21:56:40+00:00''"
  by code_simp

lemma utc_fromisoformat_sample: "utc_fromisoformat ''2023-11-14T22:13:20+00:00'' = Inr 1700000000"
  by code_simp

lemma utc_fromisoformat_sample2: "utc_fromisoformat ''2023-11-14T22:23:20+00:00'' = Inr 1700000600"
  by code_simp

lemma utc_fromisoformat_sample3: "utc_fromisoformat ''2023-11-14T21:56:40+00:00'' = Inr 1699999000"
  by code_simp

lemma utc_fromisoformat_garbage: "utc_fromisoformat ''not-a-date'' = Inl ValueError"
  by code_simp

section \<open>Facts about the store\<close>

text \<open>
  \<open>find_one\<close> returns the first document that matches; \<open>update_one\<close> and
  \<open>delete_one\<close> act on that document and leave the others as they are.
\<close>

lemma find_one_Some_matches: "find_one k v c = Some d \<Longrightarrow> d k = Some v \<and> d \<in> set c"
  by (auto simp add: find_one_def matches_def find_Some_iff)

lemma find_one_None_iff: "find_one k v c = None \<longleftrightarrow> (\<forall>d \<in> set c. d k \<noteq> Some v)"
  by (auto simp add: find_one_def matches_def find_None_iff)

lemma not_doc_found: "find_one k v c = Some d \<Longrightarrow> \<not> not_doc (find_one k v c)"
  by (auto simp add: not_doc_def dest!: find_one_Some_matches)

lemma find_one_split:
  "find_one k v c = Some d \<Longrightarrow>
     \<exists>pre post. c = pre @ d # post \<and> list_all (\<lambda>x. \<not> matches k v x) pre"
proof (induction c)
  case Nil
  then show ?case by (simp add: find_one_def)
next
  case (Cons x c)
  show ?case
  proof (cases "matches k v x")
    case True
    with Cons.prems have "x = d" by (simp add: find_one_def)
    then have "x # c = [] @ d # c \<and> list_all (\<lambda>x. \<not> matches k v x) []" by simp
    then show ?thesis by blast
  next
    case False
    with Cons.prems have "find_one k v c = Some d" by (simp add: find_one_def)
    from Cons.IH[OF this] obtain pre post where
      "c = pre @ d # post" "list_all (\<lambda>x. \<not> matches k v x) pre" by blast
    with False have "x # c = (x # pre) @ d # post \<and> list_all (\<lambda>x. \<not> matches k v x) (x # pre)"
      by simp
    then show ?thesis by blast
  qed
qed

lemma update_one_split:
  "list_all (\<lambda>x. \<not> matches k v x) pre \<Longrightarrow> matches k v d \<Longrightarrow>
     update_one k v upd (pre @ d # post) = pre @ (d ++ upd) # post"
  by (induction pre) simp_all

lemma find_one_after_split:
  "list_all (\<lambda>x. \<not> matches k v x) pre \<Longrightarrow> matches k v d' \<Longrightarrow>
     find_one k v (pre @ d' # post) = Some d'"
  by (induction pre) (simp_all add: find_one_def)

lemma delete_one_split:
  "list_all (\<lambda>x. \<not> matches k v x) pre \<Longrightarrow> matches k v d \<Longrightarrow>
     delete_one k v (pre @ d # post) = (1, pre @ post)"
  by (induction pre) simp_all

lemma delete_one_none:
  "list_all (\<lambda>x. \<not> matches k v x) c \<Longrightarrow> delete_one k v c = (0, c)"
  by (induction c) simp_all

lemma remove1_split:
  "list_all (\<lambda>x. \<not> matches k v x) pre \<Longrightarrow> matches k v d \<Longrightarrow>
     remove1 d (pre @ d # post) = pre @ post"
  by (induction pre) auto

section \<open>Password hasher: malformed hash strings\<close>

text \<open>An exception of the hashing context leaves the login handler as it is.\<close>

lemma login_verify_raises:
  assumes "find_one ''username'' (PStr (l_username login_data)) (admins db) = Some a"
    "a ''password_hash'' = Some h" "ctx_verify (l_password login_data) h = Inl e"
  shows "admin_login ctx_verify SECRET_KEY now db login_data = Inl e"
  using assms not_doc_found[OF assms(1)]
  by (simp add: admin_login_def Let_def verify_password_def)

text \<open>
  C8, as the code has it. \<open>verify_password\<close> returns what the hashing context's
  \<open>verify\<close> returns and raises what it raises; it has no handling of its own. A hash
  string that the context rejects with an exception therefore makes \<open>verify_password\<close>
  throw, and a login against an admin stored with such a hash ends with that exception,
  not with a refusal.
\<close>

theorem verify_password_forwards:
  "(ctx_verify plain_password hashed_password = Inr b \<longrightarrow>
      verify_password ctx_verify plain_password hashed_password = Inr b)
   \<and> (ctx_verify plain_password hashed_password = Inl e \<longrightarrow>
      verify_password ctx_verify plain_password hashed_password = Inl e)
   \<and> (find_one ''username'' (PStr (l_username login_data)) (admins db) = Some a
        \<and> a ''password_hash'' = Some hashed_password
        \<and> ctx_verify (l_password login_data) hashed_password = Inl e \<longrightarrow>
      admin_login ctx_verify SECRET_KEY now db login_data = Inl e)"
  using login_verify_raises[of login_data db a hashed_password ctx_verify e SECRET_KEY now]
  by (simp add: verify_password_def)

text \<open>
  The claim that a malformed hash string verifies as false fails for a hashing context
  that raises on a string of no configured scheme, as the configured one is documented to
  do: the exception reaches the caller.
\<close>

theorem verify_password_raises:
  "verify_password sample_verify ''admin123'' (PStr ''not-a-hash'') = Inl UnknownHashError"
  by (simp add: verify_password_def sample_verify_def)

text \<open>
  A hash the context made, a string that is no hash, and a login against the latter.
\<close>

theorem verify_password_forwards_witness:
  "sample_verify ''admin123'' (PStr (sample_hash ''abcdefghijklmnopqrstuv'' ''admin123'')) = Inr True
   \<and> verify_password sample_verify ''admin123''
        (PStr (sample_hash ''abcdefghijklmnopqrstuv'' ''admin123'')) = Inr True
   \<and> sample_verify ''admin123'' (PStr ''not-a-hash'') = Inl UnknownHashError
   \<and> verify_password sample_verify ''admin123'' (PStr ''not-a-hash'') = Inl UnknownHashError
   \<and> find_one ''username'' (PStr ''admin'')
        (admins \<lparr>admins = [[''username'' \<mapsto> PStr ''admin'',
                             ''password_hash'' \<mapsto> PStr ''not-a-hash'']], products = []\<rparr>)
       = Some [''username'' \<mapsto> PStr ''admin'', ''password_hash'' \<mapsto> PStr ''not-a-hash'']
   \<and> admin_login sample_verify ''secret'' 1700000000
        \<lparr>admins = [[''username'' \<mapsto> PStr ''admin'',
                     ''password_hash'' \<mapsto> PStr ''not-a-hash'']], products = []\<rparr>
        \<lparr>l_username = ''admin'', l_password = ''admin123''\<rparr>
       = Inl UnknownHashError"
proof -
  let ?a = "[''username'' \<mapsto> PStr ''admin'', ''password_hash'' \<mapsto> PStr ''not-a-hash'']"
  let ?db = "\<lparr>admins = [?a], products = []\<rparr>"
  let ?login = "\<lparr>l_username = ''admin'', l_password = ''admin123''\<rparr>"
  have v1: "sample_verify ''admin123'' (PStr (sample_hash ''abcdefghijklmnopqrstuv'' ''admin123'')) = Inr True"
    by (simp add: sample_verify_def sample_hash_def)
  have v2: "sample_verify ''admin123'' (PStr ''not-a-hash'') = Inl UnknownHashError"
    by (simp add: sample_verify_def)
  have f: "find_one ''username'' (PStr ''admin'') (admins ?db) = Some ?a"
    by (simp add: find_one_def matches_def)
  from v1 verify_password_forwards[of sample_verify "''admin123''"
      "PStr (sample_hash ''abcdefghijklmnopqrstuv'' ''admin123'')" True UnknownHashError ?login ?db ?a
      "''secret''" 1700000000]
  have a: "verify_password sample_verify ''admin123''
        (PStr (sample_hash ''abcdefghijklmnopqrstuv'' ''admin123'')) = Inr True"
    by simp
  from v2 f verify_password_forwards[of sample_verify "''admin123''" "PStr ''not-a-hash''" True
      UnknownHashError ?login ?db ?a "''secret''" 1700000000]
  have b: "verify_password sample_verify ''admin123'' (PStr ''not-a-hash'') = Inl UnknownHashError
      \<and> admin_login sample_verify ''secret'' 1700000000 ?db ?login = Inl UnknownHashError"
    by simp
  from v1 a v2 b f show ?thesis by simp
qed

section \<open>Record normalizer: round trip and partiality\<close>

text \<open>
  Each of the two conversions touches only its own key, and only when the value under
  it has the type it converts from.
\<close>

lemma str_to_datetime_str:
  "item k = Some (PStr s) \<Longrightarrow>
   str_to_datetime f k item =
     (case f s of Inl e \<Rightarrow> Inl e | Inr d \<Rightarrow> Inr (item(k \<mapsto> PDatetime d)))"
  by (simp add: str_to_datetime_def dict_get_def)

lemma str_to_datetime_id:
  "(\<And>s. item k \<noteq> Some (PStr s)) \<Longrightarrow> str_to_datetime f k item = Inr item"
  by (simp add: str_to_datetime_def dict_get_def split: option.split pyval.split)

lemma str_to_datetime_Inr:
  assumes "str_to_datetime f k item = Inr item'"
  shows "(\<exists>s d. item k = Some (PStr s) \<and> f s = Inr d \<and> item' = item(k \<mapsto> PDatetime d))
         \<or> ((\<forall>s. item k \<noteq> Some (PStr s)) \<and> item' = item)"
proof (cases "\<exists>s. item k = Some (PStr s)")
  case True
  then obtain s where s: "item k = Some (PStr s)" by blast
  with assms show ?thesis
    by (cases "f s") (simp_all add: str_to_datetime_str)
next
  case False
  then have "str_to_datetime f k item = Inr item"
    by (intro str_to_datetime_id) blast
  with assms False show ?thesis by simp
qed

lemma str_to_datetime_not_str:
  "str_to_datetime f k item = Inr item' \<Longrightarrow> item' k \<noteq> Some (PStr s)"
  by (drule str_to_datetime_Inr) auto

lemma str_to_datetime_other:
  "str_to_datetime f k item = Inr item' \<Longrightarrow> k' \<noteq> k \<Longrightarrow> item' k' = item k'"
  by (drule str_to_datetime_Inr) auto

lemma parse_from_mongo_Inr:
  "parse_from_mongo f item = Inr item' \<Longrightarrow>
     \<exists>mid. str_to_datetime f ''created_at'' item = Inr mid
        \<and> str_to_datetime f ''updated_at'' mid = Inr item'"
  by (cases "str_to_datetime f ''created_at'' item") (simp_all add: parse_from_mongo_def)

lemma parse_idem:
  assumes "parse_from_mongo f item = Inr item'"
  shows "parse_from_mongo f item' = Inr item'"
proof -
  from parse_from_mongo_Inr[OF assms] obtain mid where
    m1: "str_to_datetime f ''created_at'' item = Inr mid" and
    m2: "str_to_datetime f ''updated_at'' mid = Inr item'"
    by blast
  have "item' ''created_at'' = mid ''created_at''"
    by (rule str_to_datetime_other[OF m2]) simp
  then have "str_to_datetime f ''created_at'' item' = Inr item'"
    using str_to_datetime_not_str[OF m1] by (intro str_to_datetime_id) simp
  moreover have "str_to_datetime f ''updated_at'' item' = Inr item'"
    using str_to_datetime_not_str[OF m2] by (intro str_to_datetime_id) simp
  ultimately show ?thesis by (simp add: parse_from_mongo_def)
qed

lemma parse_other:
  assumes "parse_from_mongo f item = Inr item'" "k \<noteq> ''created_at''" "k \<noteq> ''updated_at''"
  shows "item' k = item k"
proof -
  from parse_from_mongo_Inr[OF assms(1)] obtain mid where
    m1: "str_to_datetime f ''created_at'' item = Inr mid" and
    m2: "str_to_datetime f ''updated_at'' mid = Inr item'"
    by blast
  show ?thesis
    using str_to_datetime_other[OF m1 assms(2)] str_to_datetime_other[OF m2 assms(3)] by simp
qed

lemma parse_not_str:
  assumes "parse_from_mongo f item = Inr item'" "k = ''created_at'' \<or> k = ''updated_at''"
    "\<And>s. item k \<noteq> Some (PStr s)"
  shows "item' k = item k"
proof -
  from parse_from_mongo_Inr[OF assms(1)] obtain mid where
    m1: "str_to_datetime f ''created_at'' item = Inr mid" and
    m2: "str_to_datetime f ''updated_at'' mid = Inr item'"
    by blast
  note a = str_to_datetime_Inr[OF m1] and b = str_to_datetime_Inr[OF m2]
  from assms(2) show ?thesis
  proof
    assume k: "k = ''created_at''"
    then have "mid k = item k" using a assms(3) by auto
    moreover have "item' k = mid k" using str_to_datetime_other[OF m2, of k] k by simp
    ultimately show ?thesis by simp
  next
    assume k: "k = ''updated_at''"
    then have "mid k = item k" using str_to_datetime_other[OF m1, of k] by simp
    then show ?thesis using b assms(3) k by auto
  qed
qed

lemma datetime_to_str_other: "k' \<noteq> k \<Longrightarrow> datetime_to_str isoformat k data k' = data k'"
  by (simp add: datetime_to_str_def split: pyval.split)

lemma datetime_to_str_same:
  "datetime_to_str isoformat k data k =
     (case data k of Some (PDatetime d) \<Rightarrow> Some (PStr (isoformat d)) | x \<Rightarrow> x)"
  by (simp add: datetime_to_str_def dict_get_def split: pyval.split option.split)

lemma prepare_lookup:
  "prepare_for_mongo isoformat data k =
     (if k = ''created_at'' \<or> k = ''updated_at''
      then (case data k of Some (PDatetime d) \<Rightarrow> Some (PStr (isoformat d)) | x \<Rightarrow> x)
      else data k)"
  by (auto simp add: prepare_for_mongo_def Let_def datetime_to_str_other datetime_to_str_same)

lemma prepare_not_datetime:
  "(\<And>d. data k \<noteq> Some (PDatetime d)) \<Longrightarrow> prepare_for_mongo isoformat data k = data k"
proof (cases "data k")
  case None
  then show ?thesis by (simp add: prepare_lookup)
next
  case (Some v)
  assume "\<And>d. data k \<noteq> Some (PDatetime d)"
  with Some show ?thesis by (cases v) (simp_all add: prepare_lookup)
qed

lemma prepare_idem:
  "prepare_for_mongo isoformat (prepare_for_mongo isoformat data)
     = prepare_for_mongo isoformat data"
proof
  fix k
  have "\<And>d. prepare_for_mongo isoformat data k \<noteq> Some (PDatetime d)"
    if "k = ''created_at'' \<or> k = ''updated_at''"
    using that by (auto simp add: prepare_lookup split: option.split pyval.split)
  then show "prepare_for_mongo isoformat (prepare_for_mongo isoformat data) k
      = prepare_for_mongo isoformat data k"
    by (cases "k = ''created_at'' \<or> k = ''updated_at''")
       (simp add: prepare_not_datetime, simp add: prepare_lookup)
qed

lemma parse_prepare:
  assumes "r ''created_at'' = Some (PDatetime c)" "r ''updated_at'' = Some (PDatetime u)"
    "fromisoformat (isoformat c) = Inr c" "fromisoformat (isoformat u) = Inr u"
  shows "parse_from_mongo fromisoformat (prepare_for_mongo isoformat r) = Inr r"
proof -
  let ?p = "prepare_for_mongo isoformat r"
  have p1: "?p ''created_at'' = Some (PStr (isoformat c))"
    and p2: "?p ''updated_at'' = Some (PStr (isoformat u))"
    using assms(1,2) by (simp_all add: prepare_lookup)
  have s1: "str_to_datetime fromisoformat ''created_at'' ?p
        = Inr (?p(''created_at'' \<mapsto> PDatetime c))"
    by (simp add: str_to_datetime_def dict_get_def p1 assms(3))
  have s2: "str_to_datetime fromisoformat ''updated_at'' (?p(''created_at'' \<mapsto> PDatetime c))
        = Inr (?p(''created_at'' \<mapsto> PDatetime c, ''updated_at'' \<mapsto> PDatetime u))"
    by (simp add: str_to_datetime_def dict_get_def p2 assms(4))
  have "?p(''created_at'' \<mapsto> PDatetime c, ''updated_at'' \<mapsto> PDatetime u) = r"
  proof
    fix k
    show "(?p(''created_at'' \<mapsto> PDatetime c, ''updated_at'' \<mapsto> PDatetime u)) k = r k"
      using assms(1,2) by (simp add: prepare_lookup)
  qed
  with s1 s2 show ?thesis by (simp add: parse_from_mongo_def)
qed

text \<open>
  C3. For a record whose \<open>created_at\<close> and \<open>updated_at\<close> are datetimes that the
  library's parser reads back from their printed form, parsing the prepared record gives
  the record again. Preparing twice is preparing once, and parsing what a parse returned
  returns it unchanged. A field that is absent or not a datetime is left as it is by
  \<open>prepare_for_mongo\<close>, a field that is absent or not a string by \<open>parse_from_mongo\<close>,
  and neither function touches any other key.
\<close>

theorem normalizer_round_trip:
  "(r ''created_at'' = Some (PDatetime c) \<and> r ''updated_at'' = Some (PDatetime u)
      \<and> fromisoformat (isoformat c) = Inr c \<and> fromisoformat (isoformat u) = Inr u
      \<longrightarrow> parse_from_mongo fromisoformat (prepare_for_mongo isoformat r) = Inr r)
   \<and> prepare_for_mongo isoformat (prepare_for_mongo isoformat r) = prepare_for_mongo isoformat r
   \<and> (parse_from_mongo fromisoformat item = Inr item'
        \<longrightarrow> parse_from_mongo fromisoformat item' = Inr item')
   \<and> ((\<forall>d. r k \<noteq> Some (PDatetime d)) \<longrightarrow> prepare_for_mongo isoformat r k = r k)
   \<and> (parse_from_mongo fromisoformat item = Inr item' \<and> (\<forall>s. item k \<noteq> Some (PStr s))
        \<longrightarrow> item' k = item k)
   \<and> (k \<noteq> ''created_at'' \<and> k \<noteq> ''updated_at''
        \<longrightarrow> prepare_for_mongo isoformat r k = r k
          \<and> (parse_from_mongo fromisoformat item = Inr item' \<longrightarrow> item' k = item k))"
proof -
  have a: "parse_from_mongo fromisoformat item = Inr item' \<Longrightarrow> (\<forall>s. item k \<noteq> Some (PStr s))
      \<Longrightarrow> item' k = item k"
    by (cases "k = ''created_at'' \<or> k = ''updated_at''")
       (simp add: parse_not_str, simp add: parse_other)
  show ?thesis
    using parse_prepare[of r c u fromisoformat isoformat] prepare_idem[of isoformat r]
      parse_idem[of fromisoformat item item'] prepare_not_datetime[of r k isoformat]
      parse_other[of fromisoformat item item' k] a
    by (simp add: prepare_lookup)
qed

text \<open>
  A record with two different timestamps; the stored product parsed once and twice; its
  printed \<open>created_at\<close> prepared again; a stored product without a price.
\<close>

theorem normalizer_round_trip_witness:
  "[''id'' \<mapsto> PStr ''p1'', ''created_at'' \<mapsto> PDatetime 1700000000,
      ''updated_at'' \<mapsto> PDatetime 1700000600] ''created_at'' = Some (PDatetime 1700000000)
   \<and> [''id'' \<mapsto> PStr ''p1'', ''created_at'' \<mapsto> PDatetime 1700000000,
      ''updated_at'' \<mapsto> PDatetime 1700000600] ''updated_at'' = Some (PDatetime 1700000600)
   \<and> utc_fromisoformat (utc_isoformat 1700000000) = Inr 1700000000
   \<and> utc_fromisoformat (utc_isoformat 1700000600) = Inr 1700000600
   \<and> parse_from_mongo utc_fromisoformat
        (prepare_for_mongo utc_isoformat
          [''id'' \<mapsto> PStr ''p1'', ''created_at'' \<mapsto> PDatetime 1700000000,
           ''updated_at'' \<mapsto> PDatetime 1700000600])
      = Inr [''id'' \<mapsto> PStr ''p1'', ''created_at'' \<mapsto> PDatetime 1700000000,
             ''updated_at'' \<mapsto> PDatetime 1700000600]
   \<and> prepare_for_mongo utc_isoformat
        [''id'' \<mapsto> PStr ''p1'', ''created_at'' \<mapsto> PDatetime 1700000000,
         ''updated_at'' \<mapsto> PDatetime 1700000600] ''id''
      = Some (PStr ''p1'')
   \<and> parse_from_mongo utc_fromisoformat stored_shirt
      = Inr (stored_shirt(''created_at'' \<mapsto> PDatetime 1700000000,
                          ''updated_at'' \<mapsto> PDatetime 1700000000))
   \<and> parse_from_mongo utc_fromisoformat
        (stored_shirt(''created_at'' \<mapsto> PDatetime 1700000000,
                      ''updated_at'' \<mapsto> PDatetime 1700000000))
      = Inr (stored_shirt(''created_at'' \<mapsto> PDatetime 1700000000,
                          ''updated_at'' \<mapsto> PDatetime 1700000000))
   \<and> (stored_shirt(''created_at'' \<mapsto> PDatetime 1700000000,
                     ''updated_at'' \<mapsto> PDatetime 1700000000)) ''id''
      = stored_shirt ''id''
   \<and> stored_shirt ''created_at'' = Some (PStr ''2023-11-14T22:13:20+00:00'')
   \<and> prepare_for_mongo utc_isoformat stored_shirt ''created_at'' = stored_shirt ''created_at''
   \<and> (stored_shirt(''price'' := None)) ''price'' = None
   \<and> parse_from_mongo utc_fromisoformat (stored_shirt(''price'' := None))
      = Inr (stored_shirt(''price'' := None, ''created_at'' \<mapsto> PDatetime 1700000000,
                          ''updated_at'' \<mapsto> PDatetime 1700000000))
   \<and> (stored_shirt(''price'' := None, ''created_at'' \<mapsto> PDatetime 1700000000,
                     ''updated_at'' \<mapsto> PDatetime 1700000000)) ''price'' = None"
proof -
  let ?r = "[''id'' \<mapsto> PStr ''p1'', ''created_at'' \<mapsto> PDatetime 1700000000,
             ''updated_at'' \<mapsto> PDatetime 1700000600]"
  let ?item' = "stored_shirt(''created_at'' \<mapsto> PDatetime 1700000000,
                             ''updated_at'' \<mapsto> PDatetime 1700000000)"
  let ?bare = "stored_shirt(''price'' := None)"
  let ?bare' = "stored_shirt(''price'' := None, ''created_at'' \<mapsto> PDatetime 1700000000,
                          ''updated_at'' \<mapsto> PDatetime 1700000000)"
  have h1: "utc_fromisoformat (utc_isoformat 1700000000) = Inr 1700000000"
    by (simp add: utc_isoformat_sample utc_fromisoformat_sample)
  have h2: "utc_fromisoformat (utc_isoformat 1700000600) = Inr 1700000600"
    by (simp add: utc_isoformat_sample2 utc_fromisoformat_sample2)
  have h3: "parse_from_mongo utc_fromisoformat stored_shirt = Inr ?item'"
    by (simp add: parse_from_mongo_def str_to_datetime_def dict_get_def stored_shirt_def
        utc_fromisoformat_sample)
  have h4: "stored_shirt ''created_at'' = Some (PStr ''2023-11-14T22:13:20+00:00'')"
    by (simp add: stored_shirt_def)
  have h5: "parse_from_mongo utc_fromisoformat ?bare = Inr ?bare'"
    by (simp add: parse_from_mongo_def str_to_datetime_def dict_get_def stored_shirt_def
        utc_fromisoformat_sample)
  from h1 h2 h3
    normalizer_round_trip[of ?r 1700000000 1700000600 utc_fromisoformat utc_isoformat
      stored_shirt ?item' "''id''"]
  have a: "parse_from_mongo utc_fromisoformat (prepare_for_mongo utc_isoformat ?r) = Inr ?r
      \<and> prepare_for_mongo utc_isoformat ?r ''id'' = Some (PStr ''p1'')
      \<and> parse_from_mongo utc_fromisoformat ?item' = Inr ?item'
      \<and> ?item' ''id'' = stored_shirt ''id''"
    by simp
  from h4
    normalizer_round_trip[of stored_shirt 1700000000 1700000600 utc_fromisoformat utc_isoformat
      stored_shirt ?item' "''created_at''"]
  have b: "prepare_for_mongo utc_isoformat stored_shirt ''created_at'' = stored_shirt ''created_at''"
    by simp
  from h5
    normalizer_round_trip[of stored_shirt 1700000000 1700000600 utc_fromisoformat utc_isoformat
      ?bare ?bare' "''price''"]
  have c: "?bare' ''price'' = None"
    by simp
  from h1 h2 h3 h4 h5 a b c show ?thesis by simp
qed

text \<open>
  C10. \<open>parse_from_mongo\<close> is partial: when \<open>created_at\<close> is a string the parser
  rejects, or \<open>created_at\<close> is no string and \<open>updated_at\<close> is such a string, the
  parser's exception leaves \<open>parse_from_mongo\<close>, and \<open>get_product\<close> of that document
  ends with the same exception instead of a record or a 404.
\<close>

theorem parse_from_mongo_raises:
  "(item ''created_at'' = Some (PStr s) \<and> fromisoformat s = Inl e
      \<longrightarrow> parse_from_mongo fromisoformat item = Inl e)
   \<and> ((\<forall>c. item ''created_at'' \<noteq> Some (PStr c)) \<and> item ''updated_at'' = Some (PStr s)
        \<and> fromisoformat s = Inl e
      \<longrightarrow> parse_from_mongo fromisoformat item = Inl e)
   \<and> (find_one ''id'' (PStr product_id) (products db) = Some item
        \<and> parse_from_mongo fromisoformat item = Inl e
      \<longrightarrow> get_product fromisoformat db product_id = Inl e)"
proof -
  have a: "parse_from_mongo fromisoformat item = Inl e"
    if "item ''created_at'' = Some (PStr s)" "fromisoformat s = Inl e"
    using that by (simp add: parse_from_mongo_def str_to_datetime_str)
  have b: "parse_from_mongo fromisoformat item = Inl e"
    if "\<forall>c. item ''created_at'' \<noteq> Some (PStr c)" "item ''updated_at'' = Some (PStr s)"
      "fromisoformat s = Inl e"
  proof -
    have "str_to_datetime fromisoformat ''created_at'' item = Inr item"
      using that(1) by (intro str_to_datetime_id) simp
    then show ?thesis
      using that(2,3) by (simp add: parse_from_mongo_def str_to_datetime_str)
  qed
  have c: "get_product fromisoformat db product_id = Inl e"
    if "find_one ''id'' (PStr product_id) (products db) = Some item"
      "parse_from_mongo fromisoformat item = Inl e"
    using that not_doc_found[OF that(1)] by (simp add: get_product_def)
  from a b c show ?thesis by blast
qed

text \<open>
  A stored product whose \<open>created_at\<close> is not a timestamp, and one whose \<open>updated_at\<close>
  is not.
\<close>

theorem parse_from_mongo_raises_witness:
  "(stored_shirt(''created_at'' \<mapsto> PStr ''not-a-date'')) ''created_at'' = Some (PStr ''not-a-date'')
   \<and> utc_fromisoformat ''not-a-date'' = Inl ValueError
   \<and> parse_from_mongo utc_fromisoformat (stored_shirt(''created_at'' \<mapsto> PStr ''not-a-date''))
       = Inl ValueError
   \<and> find_one ''id'' (PStr ''p1'')
        (products \<lparr>admins = [], products = [stored_shirt(''created_at'' \<mapsto> PStr ''not-a-date'')]\<rparr>)
       = Some (stored_shirt(''created_at'' \<mapsto> PStr ''not-a-date''))
   \<and> get_product utc_fromisoformat
        \<lparr>admins = [], products = [stored_shirt(''created_at'' \<mapsto> PStr ''not-a-date'')]\<rparr> ''p1''
       = Inl ValueError
   \<and> (stored_shirt(''created_at'' \<mapsto> PDatetime 1700000000, ''updated_at'' \<mapsto> PStr ''not-a-date''))
        ''updated_at'' = Some (PStr ''not-a-date'')
   \<and> parse_from_mongo utc_fromisoformat
        (stored_shirt(''created_at'' \<mapsto> PDatetime 1700000000, ''updated_at'' \<mapsto> PStr ''not-a-date''))
       = Inl ValueError"
proof -
  let ?item = "stored_shirt(''created_at'' \<mapsto> PStr ''not-a-date'')"
  let ?item2 = "stored_shirt(''created_at'' \<mapsto> PDatetime 1700000000,
                             ''updated_at'' \<mapsto> PStr ''not-a-date'')"
  let ?db = "\<lparr>admins = [], products = [?item]\<rparr>"
  have f: "find_one ''id'' (PStr ''p1'') (products ?db) = Some ?item"
    by (simp add: find_one_def matches_def stored_shirt_def)
  from f utc_fromisoformat_garbage
    parse_from_mongo_raises[of ?item "''not-a-date''" utc_fromisoformat ValueError "''p1''" ?db]
  have a: "parse_from_mongo utc_fromisoformat ?item = Inl ValueError
      \<and> get_product utc_fromisoformat ?db ''p1'' = Inl ValueError"
    by simp
  from utc_fromisoformat_garbage
    parse_from_mongo_raises[of ?item2 "''not-a-date''" utc_fromisoformat ValueError "''p1''" ?db]
  have b: "parse_from_mongo utc_fromisoformat ?item2 = Inl ValueError"
    by simp
  from f utc_fromisoformat_garbage a b show ?thesis by simp
qed

section \<open>Bootstrap of the admin\<close>

text \<open>The three paths of the bootstrap, and a login when no admin has the username.\<close>

lemma bootstrap_skip:
  "not_str (ADMIN_USERNAME env) \<or> not_str (ADMIN_PASSWORD env) \<Longrightarrow>
   create_default_admin ctx_hash uuid4 env db = db"
  by (simp add: create_default_admin_def Let_def)

lemma bootstrap_present:
  assumes "ADMIN_USERNAME env = Some name" "name \<noteq> []" "ADMIN_PASSWORD env = Some password"
    "password \<noteq> []" "find_one ''username'' (PStr name) (admins db) = Some a"
  shows "create_default_admin ctx_hash uuid4 env db = db"
  using assms not_doc_found[OF assms(5)]
  by (simp add: create_default_admin_def Let_def not_str_def)

lemma bootstrap_absent:
  assumes "ADMIN_USERNAME env = Some name" "name \<noteq> []" "ADMIN_PASSWORD env = Some password"
    "password \<noteq> []" "find_one ''username'' (PStr name) (admins db) = None"
  shows "create_default_admin ctx_hash uuid4 env db
     = db\<lparr>admins := admins db @
          [[''id'' \<mapsto> PStr uuid4, ''username'' \<mapsto> PStr name,
            ''password_hash'' \<mapsto> PStr (ctx_hash password)]]\<rparr>"
  using assms
  by (simp add: create_default_admin_def Let_def not_str_def not_doc_def insert_one_def
      Admin_dump_def hash_password_def)

lemma find_one_append_new:
  "find_one k v c = None \<Longrightarrow> d k = Some v \<Longrightarrow> find_one k v (c @ [d]) = Some d"
  by (induction c) (auto simp add: find_one_def matches_def split: if_splits)

lemma bootstrap_idem:
  "create_default_admin ctx_hash' uuid4' env (create_default_admin ctx_hash uuid4 env db)
     = create_default_admin ctx_hash uuid4 env db"
proof (cases "not_str (ADMIN_USERNAME env) \<or> not_str (ADMIN_PASSWORD env)")
  case True
  then show ?thesis by (simp add: bootstrap_skip)
next
  case False
  then obtain name password where
    e: "ADMIN_USERNAME env = Some name" "name \<noteq> []" "ADMIN_PASSWORD env = Some password"
      "password \<noteq> []"
    by (auto simp add: not_str_def split: option.splits)
  show ?thesis
  proof (cases "find_one ''username'' (PStr name) (admins db)")
    case (Some a)
    then show ?thesis by (simp add: bootstrap_present[OF e])
  next
    case None
    let ?new = "[''id'' \<mapsto> PStr uuid4, ''username'' \<mapsto> PStr name,
                 ''password_hash'' \<mapsto> PStr (ctx_hash password)]"
    let ?db = "db\<lparr>admins := admins db @ [?new]\<rparr>"
    have first: "create_default_admin ctx_hash uuid4 env db = ?db"
      by (rule bootstrap_absent[OF e None])
    have "find_one ''username'' (PStr name) (admins ?db) = Some ?new"
      using find_one_append_new[OF None, of ?new] by simp
    then have "create_default_admin ctx_hash' uuid4' env ?db = ?db"
      by (rule bootstrap_present[OF e])
    with first show ?thesis by simp
  qed
qed

lemma login_no_admin:
  "find_one ''username'' (PStr (l_username login_data)) (admins db) = None \<Longrightarrow>
   admin_login ctx_verify SECRET_KEY now db login_data
     = Inl (HTTPException 401 ''Incorrect username or password'')"
  by (simp add: admin_login_def Let_def not_doc_def HTTP_401_UNAUTHORIZED_def)

text \<open>
  C7. When the username or the password is missing from the configuration (or empty),
  the bootstrap changes nothing, and on an empty admin collection every login is then
  refused. When both are given and an admin with that username exists, it changes
  nothing. When both are given and no such admin exists, it appends one admin with that
  username and the hash of the password. Running it again changes nothing more, whatever
  identifier and salt the second run draws, and it never touches the products.
\<close>

theorem bootstrap_idempotent:
  "(not_str (ADMIN_USERNAME env) \<or> not_str (ADMIN_PASSWORD env) \<longrightarrow>
      create_default_admin ctx_hash uuid4 env db = db
      \<and> (admins db = [] \<longrightarrow>
           admin_login ctx_verify SECRET_KEY now (create_default_admin ctx_hash uuid4 env db)
             login_data
           = Inl (HTTPException 401 ''Incorrect username or password'')))
   \<and> (ADMIN_USERNAME env = Some name \<and> name \<noteq> [] \<and> ADMIN_PASSWORD env = Some password
        \<and> password \<noteq> [] \<and> find_one ''username'' (PStr name) (admins db) = Some a \<longrightarrow>
      create_default_admin ctx_hash uuid4 env db = db)
   \<and> (ADMIN_USERNAME env = Some name \<and> name \<noteq> [] \<and> ADMIN_PASSWORD env = Some password
        \<and> password \<noteq> [] \<and> find_one ''username'' (PStr name) (admins db) = None \<longrightarrow>
      create_default_admin ctx_hash uuid4 env db
        = db\<lparr>admins := admins db @
             [[''id'' \<mapsto> PStr uuid4, ''username'' \<mapsto> PStr name,
               ''password_hash'' \<mapsto> PStr (ctx_hash password)]]\<rparr>)
   \<and> create_default_admin ctx_hash' uuid4' env (create_default_admin ctx_hash uuid4 env db)
        = create_default_admin ctx_hash uuid4 env db
   \<and> products (create_default_admin ctx_hash uuid4 env db) = products db"
proof -
  have skip: "create_default_admin ctx_hash uuid4 env db = db
      \<and> (admins db = [] \<longrightarrow>
           admin_login ctx_verify SECRET_KEY now (create_default_admin ctx_hash uuid4 env db)
             login_data
           = Inl (HTTPException 401 ''Incorrect username or password''))"
    if "not_str (ADMIN_USERNAME env) \<or> not_str (ADMIN_PASSWORD env)"
    using that by (simp add: bootstrap_skip login_no_admin find_one_def)
  have prods: "products (create_default_admin ctx_hash uuid4 env db) = products db"
    by (simp add: create_default_admin_def Let_def split: option.split)
  from skip bootstrap_present[of env name password db a ctx_hash uuid4]
    bootstrap_absent[of env name password db ctx_hash uuid4]
    bootstrap_idem[of ctx_hash' uuid4' env ctx_hash uuid4 db] prods
  show ?thesis by blast
qed

text \<open>
  No username configured; a first start with both values; a start with the admin already there.
\<close>

theorem bootstrap_idempotent_witness:
  "not_str (ADMIN_USERNAME \<lparr>ADMIN_USERNAME = None, ADMIN_PASSWORD = Some ''pw''\<rparr>)
   \<and> create_default_admin (sample_hash ''abcdefghijklmnopqrstuv'') ''a1''
        \<lparr>ADMIN_USERNAME = None, ADMIN_PASSWORD = Some ''pw''\<rparr> \<lparr>admins = [], products = []\<rparr>
       = \<lparr>admins = [], products = []\<rparr>
   \<and> admin_login sample_verify ''secret'' 1700000000
        (create_default_admin (sample_hash ''abcdefghijklmnopqrstuv'') ''a1''
           \<lparr>ADMIN_USERNAME = None, ADMIN_PASSWORD = Some ''pw''\<rparr> \<lparr>admins = [], products = []\<rparr>)
        \<lparr>l_username = ''admin'', l_password = ''admin123''\<rparr>
       = Inl (HTTPException 401 ''Incorrect username or password'')
   \<and> find_one ''username'' (PStr ''admin'') (admins \<lparr>admins = [], products = []\<rparr>) = None
   \<and> create_default_admin (sample_hash ''abcdefghijklmnopqrstuv'') ''a1''
        \<lparr>ADMIN_USERNAME = Some ''admin'', ADMIN_PASSWORD = Some ''pw''\<rparr>
        \<lparr>admins = [], products = []\<rparr>
       = \<lparr>admins = [[''id'' \<mapsto> PStr ''a1'', ''username'' \<mapsto> PStr ''admin'',
                      ''password_hash'' \<mapsto> PStr (sample_hash ''abcdefghijklmnopqrstuv'' ''pw'')]],
          products = []\<rparr>
   \<and> find_one ''username'' (PStr ''admin'')
        (admins \<lparr>admins = [[''id'' \<mapsto> PStr ''a0'', ''username'' \<mapsto> PStr ''admin'',
                             ''password_hash'' \<mapsto> PStr ''old'']], products = []\<rparr>)
       = Some [''id'' \<mapsto> PStr ''a0'', ''username'' \<mapsto> PStr ''admin'',
               ''password_hash'' \<mapsto> PStr ''old'']
   \<and> create_default_admin (sample_hash ''abcdefghijklmnopqrstuv'') ''a1''
        \<lparr>ADMIN_USERNAME = Some ''admin'', ADMIN_PASSWORD = Some ''pw''\<rparr>
        \<lparr>admins = [[''id'' \<mapsto> PStr ''a0'', ''username'' \<mapsto> PStr ''admin'',
                     ''password_hash'' \<mapsto> PStr ''old'']], products = []\<rparr>
       = \<lparr>admins = [[''id'' \<mapsto> PStr ''a0'', ''username'' \<mapsto> PStr ''admin'',
                      ''password_hash'' \<mapsto> PStr ''old'']], products = []\<rparr>"
proof -
  let ?h = "sample_hash ''abcdefghijklmnopqrstuv''"
  let ?e0 = "\<lparr>ADMIN_USERNAME = None, ADMIN_PASSWORD = Some ''pw''\<rparr>"
  let ?e1 = "\<lparr>ADMIN_USERNAME = Some ''admin'', ADMIN_PASSWORD = Some ''pw''\<rparr>"
  let ?db0 = "\<lparr>admins = [], products = []\<rparr>"
  let ?old = "[''id'' \<mapsto> PStr ''a0'', ''username'' \<mapsto> PStr ''admin'',
               ''password_hash'' \<mapsto> PStr ''old'']"
  let ?db1 = "\<lparr>admins = [?old], products = []\<rparr>"
  let ?login = "\<lparr>l_username = ''admin'', l_password = ''admin123''\<rparr>"
  have n: "not_str (ADMIN_USERNAME ?e0)" by (simp add: not_str_def)
  have f0: "find_one ''username'' (PStr ''admin'') (admins ?db0) = None"
    by (simp add: find_one_def)
  have f1: "find_one ''username'' (PStr ''admin'') (admins ?db1) = Some ?old"
    by (simp add: find_one_def matches_def)
  have em: "admins ?db0 = []" by simp
  note skip = bootstrap_idempotent[of ?e0 ?h "''a1''" ?db0 sample_verify "''secret''" 1700000000
      ?login "''admin''" "''pw''" ?old ?h "''a1''", THEN conjunct1, THEN mp, OF disjI1[OF n]]
  note a1 = skip[THEN conjunct1]
  note a2 = skip[THEN conjunct2, THEN mp, OF em]
  from f0 bootstrap_idempotent[of ?e1 ?h "''a1''" ?db0 sample_verify "''secret''" 1700000000 ?login
      "''admin''" "''pw''" ?old ?h "''a1''"]
  have b: "create_default_admin ?h ''a1'' ?e1 ?db0
      = \<lparr>admins = [[''id'' \<mapsto> PStr ''a1'', ''username'' \<mapsto> PStr ''admin'',
                      ''password_hash'' \<mapsto> PStr (?h ''pw'')]], products = []\<rparr>"
    by simp
  from f1 bootstrap_idempotent[of ?e1 ?h "''a1''" ?db1 sample_verify "''secret''" 1700000000 ?login
      "''admin''" "''pw''" ?old ?h "''a1''"]
  have c: "create_default_admin ?h ''a1'' ?e1 ?db1 = ?db1"
    by simp
  show ?thesis by (intro conjI) (rule n a1 a2 f0 b f1 c)+
qed

section \<open>Product repository: list, create, update, delete\<close>

text \<open>The loop of the listings succeeds exactly when every document parses.\<close>

lemma parse_each_Inr_iff:
  "parse_each f ds = Inr rs \<longleftrightarrow> list_all2 (\<lambda>d r. parse_from_mongo f d = Inr r) ds rs"
proof (induction ds arbitrary: rs)
  case Nil
  then show ?case by auto
next
  case (Cons d ds)
  show ?case
    by (cases "parse_from_mongo f d"; cases "parse_each f ds")
      (auto simp add: list_all2_Cons1 Cons.IH[symmetric])
qed

lemma parse_each_Inl:
  "parse_each f ds = Inl e \<Longrightarrow> \<exists>d \<in> set ds. parse_from_mongo f d = Inl e"
proof (induction ds)
  case Nil
  then show ?case by simp
next
  case (Cons d ds)
  then show ?case
    by (cases "parse_from_mongo f d"; cases "parse_each f ds") auto
qed

lemma parse_numbered: "parse_from_mongo f (numbered_product n) = Inr (numbered_product n)"
  by (simp add: parse_from_mongo_def str_to_datetime_def dict_get_def numbered_product_def)

lemma parse_each_numbered: "parse_each f (map numbered_product ns) = Inr (map numbered_product ns)"
  by (induction ns) (simp_all add: parse_numbered)

text \<open>
  C6, as the code has it. The listing reads at most the first 1000 stored products, in
  the store's order. It returns them, each passed through \<open>parse_from_mongo\<close>, when
  every one of them parses; otherwise it ends with the exception of one that does not.
  The admin listing does the same.
\<close>

theorem get_all_products_first_1000:
  "(get_all_products fromisoformat db = Inr rs
      \<longleftrightarrow> list_all2 (\<lambda>d r. parse_from_mongo fromisoformat d = Inr r) (take 1000 (products db)) rs)
   \<and> (get_all_products fromisoformat db = Inl e
      \<longrightarrow> (\<exists>d \<in> set (take 1000 (products db)). parse_from_mongo fromisoformat d = Inl e))
   \<and> get_admin_products fromisoformat db username = get_all_products fromisoformat db"
  using parse_each_Inl[of fromisoformat "take 1000 (products db)" e]
  by (simp add: get_all_products_def get_admin_products_def to_list_def parse_each_Inr_iff)

text \<open>
  The claim that every stored product is returned fails on a store of 1001 products:
  the last one is not in the listing.
\<close>

theorem get_all_products_limit:
  "length (products big_shop) = 1001
   \<and> get_all_products utc_fromisoformat big_shop = Inr (map numbered_product [0..<1000])
   \<and> numbered_product 1000 \<in> set (products big_shop)
   \<and> numbered_product 1000 \<notin> set (map numbered_product [0..<1000])"
proof -
  have t: "take 1000 (map numbered_product [0..<1001]) = map numbered_product [0..<1000]"
    by (simp add: take_map)
  have inj: "numbered_product n = numbered_product 1000 \<Longrightarrow> n = 1000" for n
  proof -
    assume "numbered_product n = numbered_product 1000"
    then have "numbered_product n ''id'' = numbered_product 1000 ''id''" by simp
    then have "replicate n (CHR ''i'') = replicate 1000 (CHR ''i'')"
      by (simp add: numbered_product_def)
    then have "length (replicate n (CHR ''i'')) = length (replicate 1000 (CHR ''i''))" by simp
    then show "n = 1000" by simp
  qed
  have out: "numbered_product 1000 \<notin> set (map numbered_product [0..<1000])"
  proof
    assume "numbered_product 1000 \<in> set (map numbered_product [0..<1000])"
    then obtain n where "n < 1000" "numbered_product n = numbered_product 1000" by auto
    with inj show False by auto
  qed
  have mem: "numbered_product 1000 \<in> set (products big_shop)"
    by (simp add: big_shop_def)
  show ?thesis
    using out mem
    by (simp add: get_all_products_def to_list_def big_shop_def t parse_each_numbered)
qed

text \<open>
  The listing of the store with one product, and of a store whose product does not parse.
\<close>

theorem get_all_products_first_1000_witness:
  "list_all2 (\<lambda>d r. parse_from_mongo utc_fromisoformat d = Inr r) (take 1000 (products shop))
       [stored_shirt(''created_at'' \<mapsto> PDatetime 1700000000, ''updated_at'' \<mapsto> PDatetime 1700000000)]
   \<and> get_all_products utc_fromisoformat shop
     = Inr [stored_shirt(''created_at'' \<mapsto> PDatetime 1700000000, ''updated_at'' \<mapsto> PDatetime 1700000000)]
   \<and> get_admin_products utc_fromisoformat shop (PStr ''admin'')
     = get_all_products utc_fromisoformat shop
   \<and> get_all_products utc_fromisoformat
        \<lparr>admins = [], products = [stored_shirt(''created_at'' \<mapsto> PStr ''not-a-date'')]\<rparr>
     = Inl ValueError
   \<and> (\<exists>d \<in> set (take 1000 (products
          \<lparr>admins = [], products = [stored_shirt(''created_at'' \<mapsto> PStr ''not-a-date'')]\<rparr>)).
        parse_from_mongo utc_fromisoformat d = Inl ValueError)"
proof -
  let ?parsed = "stored_shirt(''created_at'' \<mapsto> PDatetime 1700000000,
                              ''updated_at'' \<mapsto> PDatetime 1700000000)"
  let ?bad = "\<lparr>admins = [], products = [stored_shirt(''created_at'' \<mapsto> PStr ''not-a-date'')]\<rparr>"
  have p: "parse_from_mongo utc_fromisoformat stored_shirt = Inr ?parsed"
    by (simp add: parse_from_mongo_def str_to_datetime_def dict_get_def stored_shirt_def
        utc_fromisoformat_sample)
  have l: "list_all2 (\<lambda>d r. parse_from_mongo utc_fromisoformat d = Inr r) (take 1000 (products shop))
       [?parsed]"
    by (simp add: shop_def p)
  have q: "parse_from_mongo utc_fromisoformat (stored_shirt(''created_at'' \<mapsto> PStr ''not-a-date''))
      = Inl ValueError"
    by (simp add: parse_from_mongo_def str_to_datetime_def dict_get_def utc_fromisoformat_garbage)
  have g: "get_all_products utc_fromisoformat ?bad = Inl ValueError"
    by (simp add: get_all_products_def to_list_def q)
  from l get_all_products_first_1000[of utc_fromisoformat shop "[?parsed]" ValueError
      "PStr ''admin''"]
  have a: "get_all_products utc_fromisoformat shop = Inr [?parsed]
      \<and> get_admin_products utc_fromisoformat shop (PStr ''admin'')
        = get_all_products utc_fromisoformat shop"
    by simp
  from g get_all_products_first_1000[of utc_fromisoformat ?bad "[]" ValueError "PStr ''admin''"]
  have b: "\<exists>d \<in> set (take 1000 (products ?bad)).
        parse_from_mongo utc_fromisoformat d = Inl ValueError"
    by blast
  show ?thesis by (intro conjI) (rule l a[THEN conjunct1] a[THEN conjunct2] g b)+
qed

text \<open>
  C4, as the code has it. The created product has the generated identifier and the
  request's fields; \<open>created_at\<close> is the first reading of the clock and \<open>updated_at\<close>
  the second, so in the returned product the two are equal exactly when the two readings
  are. The stored document has the same fields, with the two timestamps printed: there
  the two are equal exactly when the printed readings are, and so, for readings that the
  library's parser reads back from their printed form, again exactly when the two
  readings are.
\<close>

theorem create_product_generates:
  "(\<exists>doc.
      create_product isoformat uuid4 now1 now2 db product_data username
        = (\<lparr>p_id = uuid4, p_name = pc_name product_data, p_price = pc_price product_data,
            p_description = pc_description product_data, p_images = pc_images product_data,
            p_variants = pc_variants product_data,
            p_created_at = now1, p_updated_at = now2\<rparr>,
           db\<lparr>products := products db @ [doc]\<rparr>)
      \<and> doc ''id'' = Some (PStr uuid4)
      \<and> doc ''name'' = Some (PStr (pc_name product_data))
      \<and> doc ''price'' = Some (PFloat (pc_price product_data))
      \<and> doc ''description'' = Some (PStr (pc_description product_data))
      \<and> doc ''images'' = Some (images_dump (pc_images product_data))
      \<and> doc ''variants'' = Some (variants_dump (pc_variants product_data))
      \<and> doc ''created_at'' = Some (PStr (isoformat now1))
      \<and> doc ''updated_at'' = Some (PStr (isoformat now2))
      \<and> (doc ''created_at'' = doc ''updated_at'') = (isoformat now1 = isoformat now2)
      \<and> (fromisoformat (isoformat now1) = Inr now1 \<and> fromisoformat (isoformat now2) = Inr now2
           \<longrightarrow> (doc ''created_at'' = doc ''updated_at'') = (now1 = now2)))
   \<and> (p_created_at (fst (create_product isoformat uuid4 now1 now2 db product_data username))
        = p_updated_at (fst (create_product isoformat uuid4 now1 now2 db product_data username)))
      = (now1 = now2)"
proof -
  let ?p = "new_Product uuid4 now1 now2 product_data"
  let ?doc = "prepare_for_mongo isoformat (Product_dump ?p)"
  have run: "create_product isoformat uuid4 now1 now2 db product_data username
      = (?p, db\<lparr>products := products db @ [?doc]\<rparr>)"
    by (simp add: create_product_def insert_one_def Let_def)
  have p: "?p = \<lparr>p_id = uuid4, p_name = pc_name product_data, p_price = pc_price product_data,
            p_description = pc_description product_data, p_images = pc_images product_data,
            p_variants = pc_variants product_data,
            p_created_at = now1, p_updated_at = now2\<rparr>"
    by (simp add: new_Product_def)
  have run': "create_product isoformat uuid4 now1 now2 db product_data username
      = (\<lparr>p_id = uuid4, p_name = pc_name product_data, p_price = pc_price product_data,
            p_description = pc_description product_data, p_images = pc_images product_data,
            p_variants = pc_variants product_data,
            p_created_at = now1, p_updated_at = now2\<rparr>,
         db\<lparr>products := products db @ [?doc]\<rparr>)"
    by (simp add: run p)
  have fields:
    "?doc ''id'' = Some (PStr uuid4)"
    "?doc ''name'' = Some (PStr (pc_name product_data))"
    "?doc ''price'' = Some (PFloat (pc_price product_data))"
    "?doc ''description'' = Some (PStr (pc_description product_data))"
    "?doc ''images'' = Some (images_dump (pc_images product_data))"
    "?doc ''variants'' = Some (variants_dump (pc_variants product_data))"
    "?doc ''created_at'' = Some (PStr (isoformat now1))"
    "?doc ''updated_at'' = Some (PStr (isoformat now2))"
    by (simp_all add: prepare_lookup Product_dump_def new_Product_def)
  have printed: "(?doc ''created_at'' = ?doc ''updated_at'') = (isoformat now1 = isoformat now2)"
    by (simp only: fields option.inject pyval.inject)
  have readback: "(isoformat now1 = isoformat now2) = (now1 = now2)"
    if r1: "fromisoformat (isoformat now1) = Inr now1"
      and r2: "fromisoformat (isoformat now2) = Inr now2"
  proof
    assume e: "isoformat now1 = isoformat now2"
    from r1 e have "fromisoformat (isoformat now2) = Inr now1" by simp
    with r2 show "now1 = now2" by simp
  next
    assume "now1 = now2"
    then show "isoformat now1 = isoformat now2" by simp
  qed
  have stored: "fromisoformat (isoformat now1) = Inr now1 \<and> fromisoformat (isoformat now2) = Inr now2
           \<longrightarrow> (?doc ''created_at'' = ?doc ''updated_at'') = (now1 = now2)"
    using readback by (simp only: printed) blast
  have stamps: "(p_created_at (fst (create_product isoformat uuid4 now1 now2 db product_data username))
        = p_updated_at (fst (create_product isoformat uuid4 now1 now2 db product_data username)))
      = (now1 = now2)"
    by (simp add: run new_Product_def)
  have doc: "\<exists>doc.
      create_product isoformat uuid4 now1 now2 db product_data username
        = (\<lparr>p_id = uuid4, p_name = pc_name product_data, p_price = pc_price product_data,
            p_description = pc_description product_data, p_images = pc_images product_data,
            p_variants = pc_variants product_data,
            p_created_at = now1, p_updated_at = now2\<rparr>,
           db\<lparr>products := products db @ [doc]\<rparr>)
      \<and> doc ''id'' = Some (PStr uuid4)
      \<and> doc ''name'' = Some (PStr (pc_name product_data))
      \<and> doc ''price'' = Some (PFloat (pc_price product_data))
      \<and> doc ''description'' = Some (PStr (pc_description product_data))
      \<and> doc ''images'' = Some (images_dump (pc_images product_data))
      \<and> doc ''variants'' = Some (variants_dump (pc_variants product_data))
      \<and> doc ''created_at'' = Some (PStr (isoformat now1))
      \<and> doc ''updated_at'' = Some (PStr (isoformat now2))
      \<and> (doc ''created_at'' = doc ''updated_at'') = (isoformat now1 = isoformat now2)
      \<and> (fromisoformat (isoformat now1) = Inr now1 \<and> fromisoformat (isoformat now2) = Inr now2
           \<longrightarrow> (doc ''created_at'' = doc ''updated_at'') = (now1 = now2))"
    by (intro exI[of _ ?doc] conjI)
       (rule run' fields printed stored)+
  from doc stamps show ?thesis by (rule conjI)
qed

text \<open>
  The claim that the two timestamps are equal fails when the clock moves between the
  two readings.
\<close>

theorem create_product_timestamps_differ:
  "fst (create_product utc_isoformat ''p1'' 1700000000 1700000001 \<lparr>admins = [], products = []\<rparr>
          shirt (PStr ''admin''))
     = \<lparr>p_id = ''p1'', p_name = ''Shirt'', p_price = 1999 / 100, p_description = ''A shirt'',
        p_images = [],
        p_variants = [\<lparr>v_size = Some ''M'', v_color = None, v_inventory = 5\<rparr>],
        p_created_at = 1700000000, p_updated_at = 1700000001\<rparr>
   \<and> p_created_at (fst (create_product utc_isoformat ''p1'' 1700000000 1700000001
          \<lparr>admins = [], products = []\<rparr> shirt (PStr ''admin'')))
     \<noteq> p_updated_at (fst (create_product utc_isoformat ''p1'' 1700000000 1700000001
          \<lparr>admins = [], products = []\<rparr> shirt (PStr ''admin'')))"
  by (simp add: create_product_def new_Product_def Let_def shirt_def)

text \<open>
  The spec's scenario with two equal readings of the clock, and with two readings ten
  minutes apart, which the reference parser reads back: the stored timestamps differ.
\<close>

theorem create_product_generates_witness:
  "fst (create_product utc_isoformat ''p1'' 1700000000 1700000000 \<lparr>admins = [], products = []\<rparr>
          shirt (PStr ''admin''))
     = \<lparr>p_id = ''p1'', p_name = ''Shirt'', p_price = 1999 / 100, p_description = ''A shirt'',
        p_images = [],
        p_variants = [\<lparr>v_size = Some ''M'', v_color = None, v_inventory = 5\<rparr>],
        p_created_at = 1700000000, p_updated_at = 1700000000\<rparr>
   \<and> p_created_at (fst (create_product utc_isoformat ''p1'' 1700000000 1700000000
          \<lparr>admins = [], products = []\<rparr> shirt (PStr ''admin'')))
     = p_updated_at (fst (create_product utc_isoformat ''p1'' 1700000000 1700000000
          \<lparr>admins = [], products = []\<rparr> shirt (PStr ''admin'')))
   \<and> utc_fromisoformat (utc_isoformat 1700000000) = Inr 1700000000
   \<and> utc_fromisoformat (utc_isoformat 1700000600) = Inr 1700000600
   \<and> last (products (snd (create_product utc_isoformat ''p1'' 1700000000 1700000600
          \<lparr>admins = [], products = []\<rparr> shirt (PStr ''admin'')))) ''created_at''
     \<noteq> last (products (snd (create_product utc_isoformat ''p1'' 1700000000 1700000600
          \<lparr>admins = [], products = []\<rparr> shirt (PStr ''admin'')))) ''updated_at''"
proof -
  let ?db = "\<lparr>admins = [], products = []\<rparr>"
  have h1: "utc_fromisoformat (utc_isoformat 1700000000) = Inr 1700000000"
    by (simp add: utc_isoformat_sample utc_fromisoformat_sample)
  have h2: "utc_fromisoformat (utc_isoformat 1700000600) = Inr 1700000600"
    by (simp add: utc_isoformat_sample2 utc_fromisoformat_sample2)
  from create_product_generates[of utc_isoformat "''p1''" 1700000000 1700000000 ?db shirt
      "PStr ''admin''" utc_fromisoformat]
  have a: "fst (create_product utc_isoformat ''p1'' 1700000000 1700000000 ?db shirt (PStr ''admin''))
     = \<lparr>p_id = ''p1'', p_name = ''Shirt'', p_price = 1999 / 100, p_description = ''A shirt'',
        p_images = [],
        p_variants = [\<lparr>v_size = Some ''M'', v_color = None, v_inventory = 5\<rparr>],
        p_created_at = 1700000000, p_updated_at = 1700000000\<rparr>
     \<and> p_created_at (fst (create_product utc_isoformat ''p1'' 1700000000 1700000000 ?db shirt
          (PStr ''admin'')))
       = p_updated_at (fst (create_product utc_isoformat ''p1'' 1700000000 1700000000 ?db shirt
          (PStr ''admin'')))"
    by (simp add: create_product_def new_Product_def Let_def shirt_def)
  from create_product_generates[of utc_isoformat "''p1''" 1700000000 1700000600 ?db shirt
      "PStr ''admin''" utc_fromisoformat, THEN conjunct1]
  obtain doc where
    run: "create_product utc_isoformat ''p1'' 1700000000 1700000600 ?db shirt (PStr ''admin'')
        = (\<lparr>p_id = ''p1'', p_name = pc_name shirt, p_price = pc_price shirt,
            p_description = pc_description shirt, p_images = pc_images shirt,
            p_variants = pc_variants shirt,
            p_created_at = 1700000000, p_updated_at = 1700000600\<rparr>,
           ?db\<lparr>products := products ?db @ [doc]\<rparr>)"
    and st: "utc_fromisoformat (utc_isoformat 1700000000) = Inr 1700000000
           \<and> utc_fromisoformat (utc_isoformat 1700000600) = Inr 1700000600
           \<longrightarrow> (doc ''created_at'' = doc ''updated_at'') = ((1700000000 :: int) = 1700000600)"
    by (elim exE conjE) (rule that)
  from st h1 h2 have ne: "doc ''created_at'' \<noteq> doc ''updated_at''"
    by simp
  have l: "last (products (snd (create_product utc_isoformat ''p1'' 1700000000 1700000600 ?db shirt
          (PStr ''admin'')))) = doc"
    by (simp add: run)
  show ?thesis
    by (intro conjI) (rule a[THEN conjunct1] a[THEN conjunct2] h1 h2 ne[folded l])+
qed

text \<open>
  The update document: the fields of the request that are not \<^verbatim>\<open>None\<close>, and the
  printed reading of the clock under \<open>updated_at\<close>.
\<close>

lemma map_of_filter_values:
  "distinct (map fst xs) \<Longrightarrow>
   map_of (filter (\<lambda>(k, v). P v) xs) k =
     (case map_of xs k of None \<Rightarrow> None | Some v \<Rightarrow> if P v then Some v else None)"
proof (induction xs)
  case Nil
  then show ?case by simp
next
  case (Cons x xs)
  obtain k' v' where x: "x = (k', v')" by (cases x)
  from Cons.prems x have notin: "map_of xs k' = None"
    by (simp add: map_of_eq_None_iff)
  from Cons show ?case
    by (auto simp add: x notin split: option.split)
qed

lemma update_data_lookup:
  "map_of (filter (\<lambda>(k, v). v \<noteq> PNone) (ProductUpdate_items u)) k =
     (if k = ''name'' then map_option PStr (pu_name u)
      else if k = ''price'' then map_option PFloat (pu_price u)
      else if k = ''description'' then map_option PStr (pu_description u)
      else if k = ''images'' then map_option images_dump (pu_images u)
      else if k = ''variants'' then map_option variants_dump (pu_variants u)
      else None)"
proof -
  have d: "distinct (map fst (ProductUpdate_items u))"
    by (simp add: ProductUpdate_items_def)
  have o: "optional f x = PNone \<longleftrightarrow> x = None" if "\<And>a. f a \<noteq> PNone" for f :: "'a \<Rightarrow> pyval" and x
    using that by (cases x) (simp_all add: optional_def)
  have o': "optional f (Some a) = f a" for f :: "'a \<Rightarrow> pyval" and a
    by (simp add: optional_def)
  have i: "images_dump xs \<noteq> PNone" "variants_dump vs \<noteq> PNone" for xs vs
    by (simp_all add: images_dump_def variants_dump_def)
  show ?thesis
    unfolding map_of_filter_values[OF d]
    by (cases "pu_name u"; cases "pu_price u"; cases "pu_description u"; cases "pu_images u";
        cases "pu_variants u")
       (simp_all add: ProductUpdate_items_def optional_def i)
qed

lemma update_doc_lookup:
  "prepare_for_mongo isoformat
     ((map_of (filter (\<lambda>(k, v). v \<noteq> PNone) (ProductUpdate_items u)))
        (''updated_at'' \<mapsto> PDatetime now)) k =
     (if k = ''updated_at'' then Some (PStr (isoformat now))
      else if k = ''name'' then map_option PStr (pu_name u)
      else if k = ''price'' then map_option PFloat (pu_price u)
      else if k = ''description'' then map_option PStr (pu_description u)
      else if k = ''images'' then map_option images_dump (pu_images u)
      else if k = ''variants'' then map_option variants_dump (pu_variants u)
      else None)"
  by (simp add: prepare_lookup update_data_lookup)

lemma update_product_found:
  assumes found: "find_one ''id'' (PStr product_id) (products db) = Some d"
    and sp: "products db = pre @ d # post"
    and pre: "list_all (\<lambda>x. \<not> matches ''id'' (PStr product_id) x) pre"
    and upd: "upd = prepare_for_mongo isoformat
       ((map_of (filter (\<lambda>(k, v). v \<noteq> PNone) (ProductUpdate_items product_data)))
          (''updated_at'' \<mapsto> PDatetime now))"
  shows "update_product isoformat fromisoformat now db product_id product_data username
     = (parse_from_mongo fromisoformat (d ++ upd), db\<lparr>products := pre @ (d ++ upd) # post\<rparr>)"
proof -
  have m: "matches ''id'' (PStr product_id) d"
    using find_one_Some_matches[OF found] by (simp add: matches_def)
  have "upd ''id'' = None"
    by (simp add: upd update_doc_lookup)
  then have m': "matches ''id'' (PStr product_id) (d ++ upd)"
    using m by (simp add: matches_def map_add_def)
  have u: "update_one ''id'' (PStr product_id) upd (products db) = pre @ (d ++ upd) # post"
    by (simp add: sp update_one_split[OF pre m])
  have f: "find_one ''id'' (PStr product_id) (pre @ (d ++ upd) # post) = Some (d ++ upd)"
    by (rule find_one_after_split[OF pre m'])
  show ?thesis
    using not_doc_found[OF found]
    by (simp add: update_product_def Let_def upd[symmetric] u f)
qed

lemma update_product_missing:
  "find_one ''id'' (PStr product_id) (products db) = None \<Longrightarrow>
   update_product isoformat fromisoformat now db product_id product_data username
     = (Inl (HTTPException 404 ''Product not found''), db)"
  by (simp add: update_product_def not_doc_def)

lemma parse_merged:
  assumes "d' ''updated_at'' = Some (PStr (isoformat now))" "fromisoformat (isoformat now) = Inr now"
    "d' ''created_at'' = Some (PStr s)" "fromisoformat s = Inr c"
  shows "parse_from_mongo fromisoformat d'
      = Inr (d'(''created_at'' \<mapsto> PDatetime c, ''updated_at'' \<mapsto> PDatetime now))"
  using assms by (simp add: parse_from_mongo_def str_to_datetime_def dict_get_def)

text \<open>
  C5, as the code has it. For an absent identifier the update fails with 404 and writes
  nothing. Otherwise the first stored document with that identifier gets the supplied
  fields and the printed reading of the clock as \<open>updated_at\<close>, every other field and
  every other document stay as they are, and the handler returns the reloaded document
  passed through \<open>parse_from_mongo\<close>: with \<open>updated_at\<close> the reading of the clock,
  whatever the previous value was.
\<close>

theorem update_product_merges:
  "(find_one ''id'' (PStr product_id) (products db) = None \<longrightarrow>
      update_product isoformat fromisoformat now db product_id product_data username
        = (Inl (HTTPException 404 ''Product not found''), db))
   \<and> (find_one ''id'' (PStr product_id) (products db) = Some d \<longrightarrow>
      (\<exists>d' pre post.
         products db = pre @ d # post
         \<and> list_all (\<lambda>x. x ''id'' \<noteq> Some (PStr product_id)) pre
         \<and> update_product isoformat fromisoformat now db product_id product_data username
             = (parse_from_mongo fromisoformat d', db\<lparr>products := pre @ d' # post\<rparr>)
         \<and> d' ''updated_at'' = Some (PStr (isoformat now))
         \<and> d' ''name'' = (case pu_name product_data of None \<Rightarrow> d ''name'' | Some x \<Rightarrow> Some (PStr x))
         \<and> d' ''price'' = (case pu_price product_data of None \<Rightarrow> d ''price'' | Some x \<Rightarrow> Some (PFloat x))
         \<and> d' ''description''
             = (case pu_description product_data of None \<Rightarrow> d ''description'' | Some x \<Rightarrow> Some (PStr x))
         \<and> d' ''images''
             = (case pu_images product_data of None \<Rightarrow> d ''images'' | Some x \<Rightarrow> Some (images_dump x))
         \<and> d' ''variants''
             = (case pu_variants product_data of None \<Rightarrow> d ''variants''
                | Some x \<Rightarrow> Some (variants_dump x))
         \<and> (\<forall>k. k \<noteq> ''updated_at'' \<and> k \<noteq> ''name'' \<and> k \<noteq> ''price'' \<and> k \<noteq> ''description''
                \<and> k \<noteq> ''images'' \<and> k \<noteq> ''variants'' \<longrightarrow> d' k = d k)
         \<and> (fromisoformat (isoformat now) = Inr now \<and> d ''created_at'' = Some (PStr s)
              \<and> fromisoformat s = Inr c \<longrightarrow>
            parse_from_mongo fromisoformat d'
              = Inr (d'(''created_at'' \<mapsto> PDatetime c, ''updated_at'' \<mapsto> PDatetime now)))))"
proof (intro conjI impI)
  assume "find_one ''id'' (PStr product_id) (products db) = None"
  then show "update_product isoformat fromisoformat now db product_id product_data username
        = (Inl (HTTPException 404 ''Product not found''), db)"
    by (rule update_product_missing)
next
  assume found: "find_one ''id'' (PStr product_id) (products db) = Some d"
  from find_one_split[OF found] obtain pre post where
    sp: "products db = pre @ d # post"
    and pre: "list_all (\<lambda>x. \<not> matches ''id'' (PStr product_id) x) pre"
    by blast
  define upd where "upd = prepare_for_mongo isoformat
       ((map_of (filter (\<lambda>(k, v). v \<noteq> PNone) (ProductUpdate_items product_data)))
          (''updated_at'' \<mapsto> PDatetime now))"
  define d' where "d' = d ++ upd"
  have look: "d' k = (case upd k of None \<Rightarrow> d k | Some v \<Rightarrow> Some v)" for k
    by (simp add: d'_def map_add_def)
  have u: "upd k =
     (if k = ''updated_at'' then Some (PStr (isoformat now))
      else if k = ''name'' then map_option PStr (pu_name product_data)
      else if k = ''price'' then map_option PFloat (pu_price product_data)
      else if k = ''description'' then map_option PStr (pu_description product_data)
      else if k = ''images'' then map_option images_dump (pu_images product_data)
      else if k = ''variants'' then map_option variants_dump (pu_variants product_data)
      else None)" for k
    unfolding upd_def by (rule update_doc_lookup)
  have run: "update_product isoformat fromisoformat now db product_id product_data username
             = (parse_from_mongo fromisoformat d', db\<lparr>products := pre @ d' # post\<rparr>)"
    unfolding d'_def by (rule update_product_found[OF found sp pre upd_def])
  have pre': "list_all (\<lambda>x. x ''id'' \<noteq> Some (PStr product_id)) pre"
    using pre by (simp add: matches_def)
  have f1: "d' ''updated_at'' = Some (PStr (isoformat now))"
    by (simp add: look u)
  have f2: "d' ''name'' = (case pu_name product_data of None \<Rightarrow> d ''name'' | Some x \<Rightarrow> Some (PStr x))"
    by (simp add: look u split: option.split)
  have f3: "d' ''price'' = (case pu_price product_data of None \<Rightarrow> d ''price'' | Some x \<Rightarrow> Some (PFloat x))"
    by (simp add: look u split: option.split)
  have f4: "d' ''description''
             = (case pu_description product_data of None \<Rightarrow> d ''description'' | Some x \<Rightarrow> Some (PStr x))"
    by (simp add: look u split: option.split)
  have f5: "d' ''images''
             = (case pu_images product_data of None \<Rightarrow> d ''images'' | Some x \<Rightarrow> Some (images_dump x))"
    by (simp add: look u split: option.split)
  have f6: "d' ''variants''
             = (case pu_variants product_data of None \<Rightarrow> d ''variants''
                | Some x \<Rightarrow> Some (variants_dump x))"
    by (simp add: look u split: option.split)
  have f7: "\<forall>k. k \<noteq> ''updated_at'' \<and> k \<noteq> ''name'' \<and> k \<noteq> ''price'' \<and> k \<noteq> ''description''
                \<and> k \<noteq> ''images'' \<and> k \<noteq> ''variants'' \<longrightarrow> d' k = d k"
    by (simp add: look u)
  have c: "d' ''created_at'' = d ''created_at''"
    by (simp add: look u)
  have f8: "fromisoformat (isoformat now) = Inr now \<and> d ''created_at'' = Some (PStr s)
              \<and> fromisoformat s = Inr c \<longrightarrow>
            parse_from_mongo fromisoformat d'
              = Inr (d'(''created_at'' \<mapsto> PDatetime c, ''updated_at'' \<mapsto> PDatetime now))"
    using parse_merged[of d' isoformat now fromisoformat s c] f1 c by simp
  from sp pre' run f1 f2 f3 f4 f5 f6 f7 f8
  show "\<exists>d' pre post.
         products db = pre @ d # post
         \<and> list_all (\<lambda>x. x ''id'' \<noteq> Some (PStr product_id)) pre
         \<and> update_product isoformat fromisoformat now db product_id product_data username
             = (parse_from_mongo fromisoformat d', db\<lparr>products := pre @ d' # post\<rparr>)
         \<and> d' ''updated_at'' = Some (PStr (isoformat now))
         \<and> d' ''name'' = (case pu_name product_data of None \<Rightarrow> d ''name'' | Some x \<Rightarrow> Some (PStr x))
         \<and> d' ''price'' = (case pu_price product_data of None \<Rightarrow> d ''price'' | Some x \<Rightarrow> Some (PFloat x))
         \<and> d' ''description''
             = (case pu_description product_data of None \<Rightarrow> d ''description'' | Some x \<Rightarrow> Some (PStr x))
         \<and> d' ''images''
             = (case pu_images product_data of None \<Rightarrow> d ''images'' | Some x \<Rightarrow> Some (images_dump x))
         \<and> d' ''variants''
             = (case pu_variants product_data of None \<Rightarrow> d ''variants''
                | Some x \<Rightarrow> Some (variants_dump x))
         \<and> (\<forall>k. k \<noteq> ''updated_at'' \<and> k \<noteq> ''name'' \<and> k \<noteq> ''price'' \<and> k \<noteq> ''description''
                \<and> k \<noteq> ''images'' \<and> k \<noteq> ''variants'' \<longrightarrow> d' k = d k)
         \<and> (fromisoformat (isoformat now) = Inr now \<and> d ''created_at'' = Some (PStr s)
              \<and> fromisoformat s = Inr c \<longrightarrow>
            parse_from_mongo fromisoformat d'
              = Inr (d'(''created_at'' \<mapsto> PDatetime c, ''updated_at'' \<mapsto> PDatetime now)))"
    by blast
qed

text \<open>
  An update of the price only, and an update of an identifier that is not stored.
\<close>

theorem update_product_merges_witness:
  "find_one ''id'' (PStr ''p1'') (products shop) = Some stored_shirt
   \<and> utc_fromisoformat (utc_isoformat 1700000600) = Inr 1700000600
   \<and> stored_shirt ''created_at'' = Some (PStr ''2023-11-14T22:13:20+00:00'')
   \<and> utc_fromisoformat ''2023-11-14T22:13:20+00:00'' = Inr 1700000000
   \<and> (\<exists>d' pre post.
         products shop = pre @ stored_shirt # post
         \<and> update_product utc_isoformat utc_fromisoformat 1700000600 shop ''p1'' price_only
              (PStr ''admin'')
             = (Inr (d'(''created_at'' \<mapsto> PDatetime 1700000000,
                        ''updated_at'' \<mapsto> PDatetime 1700000600)),
                shop\<lparr>products := pre @ d' # post\<rparr>)
         \<and> d' ''updated_at'' = Some (PStr (utc_isoformat 1700000600))
         \<and> d' ''name'' = stored_shirt ''name''
         \<and> d' ''price'' = Some (PFloat (2499 / 100))
         \<and> d' ''id'' = stored_shirt ''id'')
   \<and> find_one ''id'' (PStr ''p2'') (products shop) = None
   \<and> update_product utc_isoformat utc_fromisoformat 1700000600 shop ''p2'' price_only
        (PStr ''admin'')
       = (Inl (HTTPException 404 ''Product not found''), shop)"
proof -
  have a: "find_one ''id'' (PStr ''p1'') (products shop) = Some stored_shirt"
    by (simp add: find_one_def matches_def shop_def stored_shirt_def)
  have b: "find_one ''id'' (PStr ''p2'') (products shop) = None"
    by (simp add: find_one_def matches_def shop_def stored_shirt_def)
  have c: "utc_fromisoformat (utc_isoformat 1700000600) = Inr 1700000600"
    by (simp add: utc_isoformat_sample2 utc_fromisoformat_sample2)
  have d: "stored_shirt ''created_at'' = Some (PStr ''2023-11-14T22:13:20+00:00'')"
    by (simp add: stored_shirt_def)
  note e = utc_fromisoformat_sample
  note m = update_product_merges[of "''p1''" shop utc_isoformat utc_fromisoformat 1700000600
      price_only "PStr ''admin''" stored_shirt "''2023-11-14T22:13:20+00:00''" 1700000000,
      THEN conjunct2, THEN mp, OF a]
  from m obtain d' pre post where big:
    "products shop = pre @ stored_shirt # post
     \<and> list_all (\<lambda>x. x ''id'' \<noteq> Some (PStr ''p1'')) pre
     \<and> update_product utc_isoformat utc_fromisoformat 1700000600 shop ''p1'' price_only
              (PStr ''admin'')
             = (parse_from_mongo utc_fromisoformat d', shop\<lparr>products := pre @ d' # post\<rparr>)
     \<and> d' ''updated_at'' = Some (PStr (utc_isoformat 1700000600))
     \<and> d' ''name'' = (case pu_name price_only of None \<Rightarrow> stored_shirt ''name''
                            | Some x \<Rightarrow> Some (PStr x))
     \<and> d' ''price'' = (case pu_price price_only of None \<Rightarrow> stored_shirt ''price''
                             | Some x \<Rightarrow> Some (PFloat x))
     \<and> d' ''description''
             = (case pu_description price_only of None \<Rightarrow> stored_shirt ''description''
                | Some x \<Rightarrow> Some (PStr x))
     \<and> d' ''images''
             = (case pu_images price_only of None \<Rightarrow> stored_shirt ''images''
                | Some x \<Rightarrow> Some (images_dump x))
     \<and> d' ''variants''
             = (case pu_variants price_only of None \<Rightarrow> stored_shirt ''variants''
                | Some x \<Rightarrow> Some (variants_dump x))
     \<and> (\<forall>k. k \<noteq> ''updated_at'' \<and> k \<noteq> ''name'' \<and> k \<noteq> ''price'' \<and> k \<noteq> ''description''
                \<and> k \<noteq> ''images'' \<and> k \<noteq> ''variants'' \<longrightarrow> d' k = stored_shirt k)
     \<and> (utc_fromisoformat (utc_isoformat 1700000600) = Inr 1700000600
              \<and> stored_shirt ''created_at'' = Some (PStr ''2023-11-14T22:13:20+00:00'')
              \<and> utc_fromisoformat ''2023-11-14T22:13:20+00:00'' = Inr 1700000000 \<longrightarrow>
            parse_from_mongo utc_fromisoformat d'
              = Inr (d'(''created_at'' \<mapsto> PDatetime 1700000000,
                        ''updated_at'' \<mapsto> PDatetime 1700000600)))"
    by (elim exE) (rule that)
  note sp = big[THEN conjunct1]
  note run = big[THEN conjunct2, THEN conjunct2, THEN conjunct1]
  note f1 = big[THEN conjunct2, THEN conjunct2, THEN conjunct2, THEN conjunct1]
  note f2 = big[THEN conjunct2, THEN conjunct2, THEN conjunct2, THEN conjunct2, THEN conjunct1]
  note f3 = big[THEN conjunct2, THEN conjunct2, THEN conjunct2, THEN conjunct2, THEN conjunct2,
      THEN conjunct1]
  note f7 = big[THEN conjunct2, THEN conjunct2, THEN conjunct2, THEN conjunct2, THEN conjunct2,
      THEN conjunct2, THEN conjunct2, THEN conjunct2, THEN conjunct2, THEN conjunct1]
  note f8 = big[THEN conjunct2, THEN conjunct2, THEN conjunct2, THEN conjunct2, THEN conjunct2,
      THEN conjunct2, THEN conjunct2, THEN conjunct2, THEN conjunct2, THEN conjunct2]
  have p: "parse_from_mongo utc_fromisoformat d'
              = Inr (d'(''created_at'' \<mapsto> PDatetime 1700000000,
                        ''updated_at'' \<mapsto> PDatetime 1700000600))"
    by (rule f8[THEN mp]) (simp only: c d e simp_thms)
  have g2: "d' ''name'' = stored_shirt ''name''"
    using f2 by (simp add: price_only_def)
  have g3: "d' ''price'' = Some (PFloat (2499 / 100))"
    using f3 by (simp add: price_only_def)
  have g7: "d' ''id'' = stored_shirt ''id''"
    using f7 by simp
  have first: "\<exists>d' pre post.
         products shop = pre @ stored_shirt # post
         \<and> update_product utc_isoformat utc_fromisoformat 1700000600 shop ''p1'' price_only
              (PStr ''admin'')
             = (Inr (d'(''created_at'' \<mapsto> PDatetime 1700000000,
                        ''updated_at'' \<mapsto> PDatetime 1700000600)),
                shop\<lparr>products := pre @ d' # post\<rparr>)
         \<and> d' ''updated_at'' = Some (PStr (utc_isoformat 1700000600))
         \<and> d' ''name'' = stored_shirt ''name''
         \<and> d' ''price'' = Some (PFloat (2499 / 100))
         \<and> d' ''id'' = stored_shirt ''id''"
    by (intro exI[of _ d'] exI[of _ pre] exI[of _ post] conjI)
       (simp_all only: sp run[unfolded p] f1 g2 g3 g7)
  note second = update_product_merges[of "''p2''" shop utc_isoformat utc_fromisoformat 1700000600
      price_only "PStr ''admin''" stored_shirt "''2023-11-14T22:13:20+00:00''" 1700000000,
      THEN conjunct1, THEN mp, OF b]
  show ?thesis
    by (intro conjI) (rule a c d e first b second)+
qed

text \<open>
  The claim that \<open>updated_at\<close> is strictly greater than before fails when the clock
  reads earlier than the stored value: the update stores the earlier reading.
\<close>

theorem update_product_clock_behind:
  "get_product utc_fromisoformat shop ''p1''
     = Inr (stored_shirt(''created_at'' \<mapsto> PDatetime 1700000000,
                         ''updated_at'' \<mapsto> PDatetime 1700000000))
   \<and> fst (update_product utc_isoformat utc_fromisoformat 1699999000 shop ''p1'' price_only
            (PStr ''admin''))
     = Inr (stored_shirt(''price'' \<mapsto> PFloat (2499 / 100),
                         ''created_at'' \<mapsto> PDatetime 1700000000,
                         ''updated_at'' \<mapsto> PDatetime 1699999000))
   \<and> \<not> (1700000000 :: datetime) < 1699999000"
proof -
  have a: "find_one ''id'' (PStr ''p1'') (products shop) = Some stored_shirt"
    by (simp add: find_one_def matches_def shop_def stored_shirt_def)
  have g: "get_product utc_fromisoformat shop ''p1''
     = Inr (stored_shirt(''created_at'' \<mapsto> PDatetime 1700000000,
                         ''updated_at'' \<mapsto> PDatetime 1700000000))"
    using not_doc_found[OF a]
    by (simp add: get_product_def a parse_from_mongo_def str_to_datetime_def dict_get_def
        stored_shirt_def utc_fromisoformat_sample)
  define upd where "upd = prepare_for_mongo utc_isoformat
       ((map_of (filter (\<lambda>(k, v). v \<noteq> PNone) (ProductUpdate_items price_only)))
          (''updated_at'' \<mapsto> PDatetime 1699999000))"
  have u: "upd = [''price'' \<mapsto> PFloat (2499 / 100), ''updated_at'' \<mapsto> PStr ''2023-11-14T21:56:40+00:00'']"
    unfolding upd_def
    by (rule ext) (simp add: update_doc_lookup price_only_def utc_isoformat_sample3)
  have r: "update_product utc_isoformat utc_fromisoformat 1699999000 shop ''p1'' price_only
            (PStr ''admin'')
      = (parse_from_mongo utc_fromisoformat (stored_shirt ++ upd),
         shop\<lparr>products := [] @ (stored_shirt ++ upd) # []\<rparr>)"
    by (rule update_product_found[OF a _ _ upd_def]) (simp_all add: shop_def)
  have p: "parse_from_mongo utc_fromisoformat (stored_shirt ++ upd)
      = Inr ((stored_shirt ++ upd)(''created_at'' \<mapsto> PDatetime 1700000000,
                                   ''updated_at'' \<mapsto> PDatetime 1699999000))"
    by (simp add: u parse_from_mongo_def str_to_datetime_def dict_get_def stored_shirt_def
        utc_fromisoformat_sample utc_fromisoformat_sample3)
  have e: "(stored_shirt ++ upd)(''created_at'' \<mapsto> PDatetime 1700000000,
                                   ''updated_at'' \<mapsto> PDatetime 1699999000)
      = stored_shirt(''price'' \<mapsto> PFloat (2499 / 100),
                         ''created_at'' \<mapsto> PDatetime 1700000000,
                         ''updated_at'' \<mapsto> PDatetime 1699999000)"
    by (rule ext) (simp add: u)
  show ?thesis using g r p e by simp
qed

text \<open>
  C9. Deleting an identifier with no stored document fails with 404 and leaves the store
  as it is; deleting a stored identifier succeeds and removes the first document with
  it. Success is reported exactly when some stored document has the identifier.
\<close>

theorem delete_product_outcome:
  "(find_one ''id'' (PStr product_id) (products db) = None \<longrightarrow>
      delete_product db product_id username
        = (Inl (HTTPException 404 ''Product not found''), db))
   \<and> (find_one ''id'' (PStr product_id) (products db) = Some d \<longrightarrow>
      delete_product db product_id username
        = (Inr ''Product deleted successfully'', db\<lparr>products := remove1 d (products db)\<rparr>))
   \<and> ((\<exists>x \<in> set (products db). x ''id'' = Some (PStr product_id))
        = (fst (delete_product db product_id username) = Inr ''Product deleted successfully''))"
proof -
  have none: "delete_product db product_id username
        = (Inl (HTTPException 404 ''Product not found''), db)"
    if "find_one ''id'' (PStr product_id) (products db) = None"
  proof -
    from that have "list_all (\<lambda>x. \<not> matches ''id'' (PStr product_id) x) (products db)"
      by (simp add: find_one_None_iff list_all_iff matches_def)
    then show ?thesis
      by (simp add: delete_product_def delete_one_none)
  qed
  have some: "delete_product db product_id username
        = (Inr ''Product deleted successfully'', db\<lparr>products := remove1 d' (products db)\<rparr>)"
    if "find_one ''id'' (PStr product_id) (products db) = Some d'" for d'
  proof -
    from find_one_split[OF that] obtain pre post where
      sp: "products db = pre @ d' # post"
      and pre: "list_all (\<lambda>x. \<not> matches ''id'' (PStr product_id) x) pre"
      by blast
    have m: "matches ''id'' (PStr product_id) d'"
      using find_one_Some_matches[OF that] by (simp add: matches_def)
    show ?thesis
      by (simp add: delete_product_def sp delete_one_split[OF pre m] remove1_split[OF pre m])
  qed
  have iff: "(\<exists>x \<in> set (products db). x ''id'' = Some (PStr product_id))
        = (fst (delete_product db product_id username) = Inr ''Product deleted successfully'')"
  proof (cases "find_one ''id'' (PStr product_id) (products db)")
    case None
    then show ?thesis using none[OF None] by (simp add: find_one_None_iff)
  next
    case (Some d')
    then show ?thesis using some[OF Some] find_one_Some_matches[OF Some] by auto
  qed
  from none some iff show ?thesis by blast
qed

text \<open>
  Deleting the stored product, and deleting an identifier that is not stored.
\<close>

theorem delete_product_outcome_witness:
  "find_one ''id'' (PStr ''p1'') (products shop) = Some stored_shirt
   \<and> delete_product shop ''p1'' (PStr ''admin'')
       = (Inr ''Product deleted successfully'', shop\<lparr>products := remove1 stored_shirt (products shop)\<rparr>)
   \<and> find_one ''id'' (PStr ''p2'') (products shop) = None
   \<and> delete_product shop ''p2'' (PStr ''admin'')
       = (Inl (HTTPException 404 ''Product not found''), shop)"
proof -
  have a: "find_one ''id'' (PStr ''p1'') (products shop) = Some stored_shirt"
    by (simp add: find_one_def matches_def shop_def stored_shirt_def)
  have b: "find_one ''id'' (PStr ''p2'') (products shop) = None"
    by (simp add: find_one_def matches_def shop_def stored_shirt_def)
  from a b delete_product_outcome[of "''p1''" shop "PStr ''admin''" stored_shirt]
    delete_product_outcome[of "''p2''" shop "PStr ''admin''" stored_shirt]
  show ?thesis by simp
qed

end
